theory Spec2Isabelle
  imports Main "HOL-Library.Finite_Map" "HOL-Library.Char_ord" "HOL-Library.List_Lexorder"
begin

section \<open>Go string helpers (package strings)\<close>

text \<open>
  Go strings are byte sequences; they are modelled as \<^typ>\<open>string\<close> (a list of 8-bit
  characters).  The helpers below follow the semantics of the functions of Go's
  \<^verbatim>\<open>strings\<close> package that the repository calls.
\<close>

definition strings_HasPrefix :: "string \<Rightarrow> string \<Rightarrow> bool" where
  "strings_HasPrefix s p = (take (length p) s = p)"

fun strings_Contains :: "string \<Rightarrow> string \<Rightarrow> bool" where
  "strings_Contains [] sub = (sub = [])"
| "strings_Contains (c # cs) sub = (strings_HasPrefix (c # cs) sub \<or> strings_Contains cs sub)"

definition strings_TrimPrefix :: "string \<Rightarrow> string \<Rightarrow> string" where
  "strings_TrimPrefix s p = (if strings_HasPrefix s p then drop (length p) s else s)"

section \<open>Sandbox: capability restriction (internal/plugin, sandbox)\<close>

text \<open>
  \<^verbatim>\<open>type Sandbox struct { L *lua.LState; restrict []string }\<close>.  The Lua state is
  referred to by a handle into the table of Lua states kept by the runtime (see below).
\<close>

record Sandbox =
  L :: nat
  restrict :: "string list"

text \<open>The body of the \<^verbatim>\<open>for _, r := range s.restrict\<close> loop of \<^verbatim>\<open>IsRestricted\<close>.\<close>

fun IsRestricted_loop :: "string list \<Rightarrow> string \<Rightarrow> bool" where
  "IsRestricted_loop [] api = False"
| "IsRestricted_loop (r # rs) api =
     (if r = api then True
      else if \<not> strings_Contains r ''.'' \<and> strings_HasPrefix api (r @ ''.'') then True
      else IsRestricted_loop rs api)"

definition IsRestricted :: "Sandbox \<Rightarrow> string \<Rightarrow> bool" where
  "IsRestricted s api =
     (if length (restrict s) = 0 then False else IsRestricted_loop (restrict s) api)"

subsection \<open>The specification's reading of a restriction\<close>

text \<open>
  The module prefix of a capability path \<open>module.function\<close> is the text before its first
  dot; a path without a dot has none.  An entry is bare when it contains no dot.
\<close>

definition module_prefix :: "string \<Rightarrow> string option" where
  "module_prefix p =
     (if CHR ''.'' \<in> set p then Some (takeWhile (\<lambda>c. c \<noteq> CHR ''.'') p) else None)"

definition bare_entry :: "string \<Rightarrow> bool" where
  "bare_entry r = (CHR ''.'' \<notin> set r)"

definition spec_isRestricted :: "string list \<Rightarrow> string \<Rightarrow> bool" where
  "spec_isRestricted R p =
     (p \<in> set R \<or>
      (case module_prefix p of None \<Rightarrow> False | Some m \<Rightarrow> m \<in> set R \<and> bare_entry m))"


section \<open>JSON text (Go's encoding/json)\<close>

text \<open>
  The handler and the sandbox bridge call \<^verbatim>\<open>json.Unmarshal\<close> and \<^verbatim>\<open>json.Marshal\<close> of
  Go's standard library.  The library is modelled here as far as the repository uses it:
  a decoder for the whole JSON grammar (strings with their escapes, numbers kept as their
  literal text, the nesting limit of 10000), decoding into a struct of string fields,
  decoding into \<^verbatim>\<open>any\<close>, and the compact encoder with Go's string escaping.
\<close>

datatype json =
    JNull
  | JBool bool
  | JNumber string
  | JString string
  | JArray "json list"
  | JObject "(string \<times> json) list"

subsection \<open>UTF-8\<close>

text \<open>
  \<open>utf8_len s\<close> is the length of the well-formed UTF-8 sequence at the head of \<open>s\<close>,
  or 0 when there is none (\<^verbatim>\<open>utf8.DecodeRune\<close> then yields the replacement character
  and consumes one byte).  The decoder coerces string contents to well-formed UTF-8.
\<close>

definition utf8_cont :: "nat \<Rightarrow> bool" where
  "utf8_cont b = (0x80 \<le> b \<and> b \<le> 0xBF)"

definition utf8_len :: "string \<Rightarrow> nat" where
  "utf8_len s =
     (case map of_char (take 4 s) of
        [] \<Rightarrow> 0
      | b0 # r \<Rightarrow>
          if b0 < (0x80::nat) then 1
          else if 0xC2 \<le> b0 \<and> b0 \<le> 0xDF then
            (case r of b1 # _ \<Rightarrow> if utf8_cont b1 then 2 else 0 | _ \<Rightarrow> 0)
          else if 0xE0 \<le> b0 \<and> b0 \<le> 0xEF then
            (case r of
               b1 # b2 # _ \<Rightarrow>
                 if (if b0 = 0xE0 then 0xA0 else 0x80) \<le> b1
                    \<and> b1 \<le> (if b0 = 0xED then 0x9F else 0xBF) \<and> utf8_cont b2
                 then 3 else 0
             | _ \<Rightarrow> 0)
          else if 0xF0 \<le> b0 \<and> b0 \<le> 0xF4 then
            (case r of
               b1 # b2 # b3 # _ \<Rightarrow>
                 if (if b0 = 0xF0 then 0x90 else 0x80) \<le> b1
                    \<and> b1 \<le> (if b0 = 0xF4 then 0x8F else 0xBF)
                    \<and> utf8_cont b2 \<and> utf8_cont b3
                 then 4 else 0
             | _ \<Rightarrow> 0)
          else 0)"

definition utf8_replacement :: string where
  "utf8_replacement = [CHR 0xEF, CHR 0xBF, CHR 0xBD]"

fun coerce_utf8 :: "nat \<Rightarrow> string \<Rightarrow> string" where
  "coerce_utf8 k [] = []"
| "coerce_utf8 (Suc k) (c # cs) = c # coerce_utf8 k cs"
| "coerce_utf8 0 (c # cs) =
     (let n = utf8_len (c # cs) in
      if n = 0 then utf8_replacement @ coerce_utf8 0 cs
      else c # coerce_utf8 (n - 1) cs)"

definition utf8_encode :: "nat \<Rightarrow> string" where
  "utf8_encode cp =
     (if cp < 0x80 then [char_of cp]
      else if cp < 0x800 then [char_of (0xC0 + cp div 64), char_of (0x80 + cp mod 64)]
      else if cp < 0x10000 then
        [char_of (0xE0 + cp div 4096), char_of (0x80 + cp div 64 mod 64),
         char_of (0x80 + cp mod 64)]
      else
        [char_of (0xF0 + cp div 262144), char_of (0x80 + cp div 4096 mod 64),
         char_of (0x80 + cp div 64 mod 64), char_of (0x80 + cp mod 64)])"

subsection \<open>Tokens\<close>

text \<open>
  The lexer runs over the bytes once, one byte per step, as Go's scanner does.  Inside a
  string it collects bytes and \<^verbatim>\<open>\uXXXX\<close> escapes; a pair of surrogate escapes is
  combined into one code point, a lone surrogate becomes U+FFFD.
\<close>

datatype token =
    TLBrace | TRBrace | TLBracket | TRBracket | TColon | TComma
  | TString string
  | TNumber string
  | TLiteral json

datatype sunit = SByte char | SEsc16 nat

definition is_surrogate :: "nat \<Rightarrow> bool" where
  "is_surrogate u = (0xD800 \<le> u \<and> u < 0xE000)"

fun decode_units :: "sunit list \<Rightarrow> string" where
  "decode_units [] = []"
| "decode_units (SByte c # us) = c # decode_units us"
| "decode_units (SEsc16 u # us) =
     (if is_surrogate u then
        (case us of
           SEsc16 v # us' \<Rightarrow>
             if u < 0xDC00 \<and> 0xDC00 \<le> v \<and> v < 0xE000
             then utf8_encode (0x10000 + (u - 0xD800) * 1024 + (v - 0xDC00)) @ decode_units us'
             else utf8_replacement @ decode_units us
         | _ \<Rightarrow> utf8_replacement @ decode_units us)
      else utf8_encode u @ decode_units us)"

definition is_space :: "char \<Rightarrow> bool" where
  "is_space c = (c = CHR '' '' \<or> c = CHR 0x09 \<or> c = CHR 0x0D \<or> c = CHR 0x0A)"

definition is_digit :: "char \<Rightarrow> bool" where
  "is_digit c = (c \<in> set ''0123456789'')"

definition is_lower :: "char \<Rightarrow> bool" where
  "is_lower c = (c \<in> set ''abcdefghijklmnopqrstuvwxyz'')"

definition hexval :: "char \<Rightarrow> nat option" where
  "hexval c = map_of (zip ''0123456789abcdef'' [0 ..< 16] @ zip ''ABCDEF'' [10 ..< 16]) c"

definition escape_char :: "char \<Rightarrow> char option" where
  \<open>escape_char c =
     (if c = CHR ''"'' then Some (CHR ''"'')
      else if c = CHR 0x5C then Some (CHR 0x5C)
      else if c = CHR ''/'' then Some (CHR ''/'')
      else if c = CHR ''b'' then Some (CHR 0x08)
      else if c = CHR ''f'' then Some (CHR 0x0C)
      else if c = CHR ''n'' then Some (CHR 0x0A)
      else if c = CHR ''r'' then Some (CHR 0x0D)
      else if c = CHR ''t'' then Some (CHR 0x09)
      else None)\<close>

definition exponent_ok :: "string \<Rightarrow> bool" where
  "exponent_ok r =
     (case r of
        [] \<Rightarrow> True
      | e # r' \<Rightarrow>
          (e = CHR ''e'' \<or> e = CHR ''E'') \<and>
          (let ds = (case r' of s # x \<Rightarrow> if s = CHR ''+'' \<or> s = CHR ''-'' then x else r' | [] \<Rightarrow> r')
           in ds \<noteq> [] \<and> list_all is_digit ds))"

definition valid_number :: "string \<Rightarrow> bool" where
  "valid_number s =
     (let s1 = (case s of c # r \<Rightarrow> if c = CHR ''-'' then r else s | [] \<Rightarrow> s);
          ip = takeWhile is_digit s1;
          r1 = dropWhile is_digit s1
      in ip \<noteq> [] \<and> (take 1 ip = ''0'' \<longrightarrow> length ip = 1) \<and>
         (case r1 of
            [] \<Rightarrow> True
          | d # r2 \<Rightarrow>
              if d = CHR ''.'' then
                takeWhile is_digit r2 \<noteq> [] \<and> exponent_ok (dropWhile is_digit r2)
              else exponent_ok r1))"

definition literal_value :: "string \<Rightarrow> json option" where
  "literal_value s =
     (if s = ''true'' then Some (JBool True)
      else if s = ''false'' then Some (JBool False)
      else if s = ''null'' then Some JNull
      else None)"

datatype lexmode =
    LStart
  | LString "sunit list"
  | LEscape "sunit list"
  | LHex "sunit list" "nat list"
  | LNumber string
  | LLiteral string

definition lex_start :: "char \<Rightarrow> (token list \<times> lexmode) option" where
  \<open>lex_start c =
     (if is_space c then Some ([], LStart)
      else if c = CHR ''{'' then Some ([TLBrace], LStart)
      else if c = CHR ''}'' then Some ([TRBrace], LStart)
      else if c = CHR ''['' then Some ([TLBracket], LStart)
      else if c = CHR '']'' then Some ([TRBracket], LStart)
      else if c = CHR '':'' then Some ([TColon], LStart)
      else if c = CHR '','' then Some ([TComma], LStart)
      else if c = CHR ''"'' then Some ([], LString [])
      else if c = CHR ''-'' \<or> is_digit c then Some ([], LNumber [c])
      else if is_lower c then Some ([], LLiteral [c])
      else None)\<close>

definition emit_then_start :: "token \<Rightarrow> char \<Rightarrow> (token list \<times> lexmode) option" where
  "emit_then_start t c =
     (case lex_start c of None \<Rightarrow> None | Some (ts, m) \<Rightarrow> Some (t # ts, m))"

fun lex_step :: "lexmode \<Rightarrow> char \<Rightarrow> (token list \<times> lexmode) option" where
  "lex_step LStart c = lex_start c"
| \<open>lex_step (LString acc) c =
     (if c = CHR ''"'' then Some ([TString (coerce_utf8 0 (decode_units (rev acc)))], LStart)
      else if c = CHR 0x5C then Some ([], LEscape acc)
      else if of_char c < (0x20::nat) then None
      else Some ([], LString (SByte c # acc)))\<close>
| "lex_step (LEscape acc) c =
     (if c = CHR ''u'' then Some ([], LHex acc [])
      else (case escape_char c of
              Some b \<Rightarrow> Some ([], LString (SByte b # acc))
            | None \<Rightarrow> None))"
| "lex_step (LHex acc hs) c =
     (case hexval c of
        None \<Rightarrow> None
      | Some h \<Rightarrow>
          if length hs = 3
          then Some ([], LString (SEsc16 (foldl (\<lambda>a d. 16 * a + d) 0 (hs @ [h])) # acc))
          else Some ([], LHex acc (hs @ [h])))"
| "lex_step (LNumber acc) c =
     (if is_digit c \<or> c \<in> set ''+-.eE'' then Some ([], LNumber (c # acc))
      else if valid_number (rev acc) then emit_then_start (TNumber (rev acc)) c
      else None)"
| "lex_step (LLiteral acc) c =
     (if is_lower c then Some ([], LLiteral (c # acc))
      else (case literal_value (rev acc) of
              Some v \<Rightarrow> emit_then_start (TLiteral v) c
            | None \<Rightarrow> None))"

fun lex_end :: "lexmode \<Rightarrow> token list option" where
  "lex_end LStart = Some []"
| "lex_end (LNumber acc) = (if valid_number (rev acc) then Some [TNumber (rev acc)] else None)"
| "lex_end (LLiteral acc) =
     (case literal_value (rev acc) of Some v \<Rightarrow> Some [TLiteral v] | None \<Rightarrow> None)"
| "lex_end (LString acc) = None"
| "lex_end (LEscape acc) = None"
| "lex_end (LHex acc hs) = None"

primrec lex :: "string \<Rightarrow> lexmode \<Rightarrow> token list option" where
  "lex [] m = lex_end m"
| "lex (c # cs) m =
     (case lex_step m c of
        None \<Rightarrow> None
      | Some (ts, m') \<Rightarrow> map_option ((@) ts) (lex cs m'))"

subsection \<open>Parser\<close>

text \<open>
  The parser is a pushdown machine over the tokens: a stack of the containers under
  construction and the kind of token expected next.  Opening a container beyond
  \<open>maxNestingDepth\<close> is an error (``exceeded max depth'').  \<open>None\<close> is a syntax error.
\<close>

datatype frame = FArray "json list" | FObject "(string \<times> json) list" string

datatype expect = XValue | XValueOrEnd | XKey | XKeyOrEnd | XColon | XCommaOrEnd | XDone json

definition maxNestingDepth :: nat where
  "maxNestingDepth = 10000"

fun push_value :: "json \<Rightarrow> frame list \<Rightarrow> frame list \<times> expect" where
  "push_value v [] = ([], XDone v)"
| "push_value v (FArray vs # st) = (FArray (v # vs) # st, XCommaOrEnd)"
| "push_value v (FObject kvs k # st) = (FObject ((k, v) # kvs) k # st, XCommaOrEnd)"

fun begin_value :: "frame list \<Rightarrow> token \<Rightarrow> (frame list \<times> expect) option" where
  "begin_value st (TString s) = Some (push_value (JString s) st)"
| "begin_value st (TNumber n) = Some (push_value (JNumber n) st)"
| "begin_value st (TLiteral v) = Some (push_value v st)"
| "begin_value st TLBracket =
     (if length st < maxNestingDepth then Some (FArray [] # st, XValueOrEnd) else None)"
| "begin_value st TLBrace =
     (if length st < maxNestingDepth then Some (FObject [] [] # st, XKeyOrEnd) else None)"
| "begin_value st t = None"

definition end_container :: "frame list \<Rightarrow> token \<Rightarrow> (frame list \<times> expect) option" where
  "end_container st t =
     (case st of
        FArray vs # st' \<Rightarrow>
          if t = TRBracket then Some (push_value (JArray (rev vs)) st') else None
      | FObject kvs k # st' \<Rightarrow>
          if t = TRBrace then Some (push_value (JObject (rev kvs)) st') else None
      | [] \<Rightarrow> None)"

definition read_key :: "frame list \<Rightarrow> token \<Rightarrow> (frame list \<times> expect) option" where
  "read_key st t =
     (case (st, t) of
        (FObject kvs k # st', TString k') \<Rightarrow> Some (FObject kvs k' # st', XColon)
      | _ \<Rightarrow> None)"

fun parse_step :: "frame list \<Rightarrow> expect \<Rightarrow> token \<Rightarrow> (frame list \<times> expect) option" where
  "parse_step st XValue t = begin_value st t"
| "parse_step st XValueOrEnd t = (if t = TRBracket then end_container st t else begin_value st t)"
| "parse_step st XKey t = read_key st t"
| "parse_step st XKeyOrEnd t = (if t = TRBrace then end_container st t else read_key st t)"
| "parse_step st XColon t = (if t = TColon then Some (st, XValue) else None)"
| "parse_step st XCommaOrEnd t =
     (if t = TComma then
        (case st of
           FArray vs # st' \<Rightarrow> Some (st, XValue)
         | FObject kvs k # st' \<Rightarrow> Some (st, XKey)
         | [] \<Rightarrow> None)
      else end_container st t)"
| "parse_step st (XDone v) t = None"

fun parse_tokens :: "frame list \<Rightarrow> expect \<Rightarrow> token list \<Rightarrow> json option" where
  "parse_tokens st e [] = (case e of XDone v \<Rightarrow> Some v | _ \<Rightarrow> None)"
| "parse_tokens st e (t # ts) =
     (case parse_step st e t of
        None \<Rightarrow> None
      | Some (st', e') \<Rightarrow> parse_tokens st' e' ts)"

definition json_parse :: "string \<Rightarrow> json option" where
  "json_parse s = (case lex s LStart of None \<Rightarrow> None | Some ts \<Rightarrow> parse_tokens [] XValue ts)"

subsection \<open>Decoding into a struct of string fields\<close>

text \<open>
  A key of the JSON object selects the struct field whose \<^verbatim>\<open>json\<close> tag name equals it,
  or else the field whose name equals it up to case folding.  For the ASCII tag names of
  this program the folded form of a key is its upper-cased form, where the two non-ASCII
  letters that fold to ASCII ones (U+017F to S, U+212A to K) are folded as well.
\<close>

definition to_upper :: "char \<Rightarrow> char" where
  "to_upper c =
     (case map_of (zip ''abcdefghijklmnopqrstuvwxyz'' ''ABCDEFGHIJKLMNOPQRSTUVWXYZ'') c of
        Some u \<Rightarrow> u
      | None \<Rightarrow> c)"

fun foldName :: "string \<Rightarrow> string" where
  "foldName [] = []"
| "foldName (c # cs) =
     (if c = CHR 0xC5 \<and> take 1 cs = [CHR 0xBF] then CHR ''S'' # foldName (drop 1 cs)
      else if c = CHR 0xE2 \<and> take 2 cs = [CHR 0x84, CHR 0xAA] then CHR ''K'' # foldName (drop 2 cs)
      else to_upper c # foldName cs)"

definition match_field :: "string list \<Rightarrow> string \<Rightarrow> string option" where
  "match_field names key =
     (case find (\<lambda>n. n = key) names of
        Some n \<Rightarrow> Some n
      | None \<Rightarrow> find (\<lambda>n. foldName n = foldName key) names)"

text \<open>
  The members are decoded in order, so a later duplicate overrides an earlier one.  A
  string value sets the field, \<^verbatim>\<open>null\<close> leaves it unchanged, a value of any other kind is
  a type error: decoding goes on, and \<^verbatim>\<open>Unmarshal\<close> returns the error at the end.
\<close>

fun decode_members ::
  "string list \<Rightarrow> (string \<times> json) list \<Rightarrow> (string \<rightharpoonup> string) \<Rightarrow> bool
     \<Rightarrow> (string \<rightharpoonup> string) \<times> bool" where
  "decode_members names [] vals ok = (vals, ok)"
| "decode_members names ((k, v) # ms) vals ok =
     (case match_field names k of
        None \<Rightarrow> decode_members names ms vals ok
      | Some f \<Rightarrow>
          (case v of
             JString s \<Rightarrow> decode_members names ms (vals(f \<mapsto> s)) ok
           | JNull \<Rightarrow> decode_members names ms vals ok
           | _ \<Rightarrow> decode_members names ms vals False))"

text \<open>
  \<^verbatim>\<open>json.Unmarshal(data, &s)\<close> for a zero-valued struct \<open>s\<close> whose fields are strings with
  the given tag names: \<open>None\<close> when an error is returned, else the fields that were set.
\<close>

definition unmarshal_struct :: "string list \<Rightarrow> string \<Rightarrow> (string \<rightharpoonup> string) option" where
  "unmarshal_struct names data =
     (case json_parse data of
        None \<Rightarrow> None
      | Some JNull \<Rightarrow> Some Map.empty
      | Some (JObject ms) \<Rightarrow>
          (case decode_members names ms Map.empty True of
             (vals, ok) \<Rightarrow> if ok then Some vals else None)
      | Some _ \<Rightarrow> None)"

definition field_value :: "(string \<rightharpoonup> string) \<Rightarrow> string \<Rightarrow> string" where
  "field_value vals f = (case vals f of Some s \<Rightarrow> s | None \<Rightarrow> [])"

subsection \<open>Encoding\<close>

definition hex_digit :: "nat \<Rightarrow> char" where
  "hex_digit n = ''0123456789abcdef'' ! (n mod 16)"

text \<open>
  \<^verbatim>\<open>json.Marshal\<close> escapes the quote, the backslash, the control characters and, for HTML
  safety, \<^verbatim>\<open><\<close>, \<^verbatim>\<open>>\<close> and \<^verbatim>\<open>&\<close>.  (Go 1.22 and later write backspace and form feed as
  \<^verbatim>\<open>\b\<close> and \<^verbatim>\<open>\f\<close>; earlier releases wrote them as \<^verbatim>\<open>\u0008\<close> and \<^verbatim>\<open>\u000c\<close>.)
\<close>

definition escape_ascii :: "char \<Rightarrow> string" where
  \<open>escape_ascii c =
     (if c = CHR ''"'' then [CHR 0x5C, CHR ''"'']
      else if c = CHR 0x5C then [CHR 0x5C, CHR 0x5C]
      else if c = CHR 0x08 then [CHR 0x5C, CHR ''b'']
      else if c = CHR 0x0C then [CHR 0x5C, CHR ''f'']
      else if c = CHR 0x0A then [CHR 0x5C, CHR ''n'']
      else if c = CHR 0x0D then [CHR 0x5C, CHR ''r'']
      else if c = CHR 0x09 then [CHR 0x5C, CHR ''t'']
      else if of_char c < (0x20::nat) \<or> c = CHR ''<'' \<or> c = CHR ''>'' \<or> c = CHR ''&'' then
        [CHR 0x5C, CHR ''u'', CHR ''0'', CHR ''0'',
         hex_digit (of_char c div 16), hex_digit (of_char c)]
      else [c])\<close>

text \<open>
  The first argument counts the bytes of a multi-byte sequence still to be passed over,
  the second says whether they are copied (an ordinary code point) or dropped (U+2028 and
  U+2029, which are written as escapes).  An ill-formed byte is written as the escape of U+FFFD.
\<close>

fun appendString :: "nat \<Rightarrow> bool \<Rightarrow> string \<Rightarrow> string" where
  "appendString k copy [] = []"
| "appendString (Suc k) copy (c # cs) = (if copy then [c] else []) @ appendString k copy cs"
| "appendString 0 copy (c # cs) =
     (if of_char c < (0x80::nat) then escape_ascii c @ appendString 0 copy cs
      else
        (let n = utf8_len (c # cs) in
         if n = 0 then [CHR 0x5C] @ ''ufffd'' @ appendString 0 copy cs
         else if take 3 (c # cs) = [CHR 0xE2, CHR 0x80, CHR 0xA8]
           then [CHR 0x5C] @ ''u2028'' @ appendString 2 False cs
         else if take 3 (c # cs) = [CHR 0xE2, CHR 0x80, CHR 0xA9]
           then [CHR 0x5C] @ ''u2029'' @ appendString 2 False cs
         else c # appendString (n - 1) True cs))"

definition json_quote :: "string \<Rightarrow> string" where
  \<open>json_quote s = ''"'' @ appendString 0 True s @ ''"''\<close>

fun join_comma :: "string list \<Rightarrow> string" where
  "join_comma [] = []"
| "join_comma [x] = x"
| "join_comma (x # y # ys) = x @ '','' @ join_comma (y # ys)"

primrec json_print :: "json \<Rightarrow> string" where
  "json_print JNull = ''null''"
| "json_print (JBool b) = (if b then ''true'' else ''false'')"
| "json_print (JNumber n) = n"
| "json_print (JString s) = json_quote s"
| "json_print (JArray vs) = ''['' @ join_comma (map json_print vs) @ '']''"
| "json_print (JObject kvs) =
     ''{'' @ join_comma (map (\<lambda>(k, s). json_quote k @ '':'' @ s) (map (map_prod id json_print) kvs))
       @ ''}''"

text \<open>Decimal text of a Go \<^verbatim>\<open>int\<close> (\<^verbatim>\<open>strconv\<close>).\<close>

fun nat_digits :: "nat \<Rightarrow> string" where
  "nat_digits n =
     (if n < 10 then [''0123456789'' ! n]
      else nat_digits (n div 10) @ [''0123456789'' ! (n mod 10)])"

definition itoa :: "int \<Rightarrow> string" where
  "itoa i = (if i < 0 then ''-'' @ nat_digits (nat (- i)) else nat_digits (nat i))"


section \<open>Configuration (internal/config)\<close>

record RouteConfig =
  route_Topic :: string
  route_Description :: string

record TopicsConfig =
  topics_Subscribe :: "string list"
  topics_Publish :: "string list"
  topics_Routes :: "RouteConfig list"

record SessionProfileConfig =
  profile_Type :: string
  profile_MaxTokens :: int
  profile_SummarizationThreshold :: int

record MemoryConfig =
  mem_Enabled :: bool
  mem_SessionPrefix :: string
  mem_TTL :: string
  mem_Profile :: SessionProfileConfig

definition HasRoutes :: "TopicsConfig \<Rightarrow> bool" where
  "HasRoutes t = (length (topics_Routes t) > 0)"

definition NL :: string where
  "NL = [CHR 0x0A]"

fun BuildRoutingPrompt_routes :: "RouteConfig list \<Rightarrow> string" where
  "BuildRoutingPrompt_routes [] = []"
| "BuildRoutingPrompt_routes (route # routes) =
     ''- `'' @ route_Topic route @ ''`: '' @ route_Description route @ NL
       @ BuildRoutingPrompt_routes routes"

definition BuildRoutingPrompt :: "TopicsConfig \<Rightarrow> string" where
  \<open>BuildRoutingPrompt t =
     (if \<not> HasRoutes t then []
      else
        NL @ NL @ ''## Routing Instructions'' @ NL
        @ ''Based on your analysis, route this message to the appropriate destination.'' @ NL
        @ ''Include a `route_to` field in your JSON response with one of these topics:'' @ NL @ NL
        @ BuildRoutingPrompt_routes (topics_Routes t)
        @ NL @ ''Example response format:'' @ NL
        @ ''```json'' @ NL
        @ ''{'' @ NL
        @ ''  "route_to": "<topic>",'' @ NL
        @ ''  "content": "your analysis or response"'' @ NL
        @ ''}'' @ NL
        @ ''```'')\<close>

fun IsValidRoute_loop :: "RouteConfig list \<Rightarrow> string \<Rightarrow> bool" where
  "IsValidRoute_loop [] topic = False"
| "IsValidRoute_loop (route # routes) topic =
     (if route_Topic route = topic then True else IsValidRoute_loop routes topic)"

definition IsValidRoute :: "TopicsConfig \<Rightarrow> string \<Rightarrow> bool" where
  "IsValidRoute t topic = IsValidRoute_loop (topics_Routes t) topic"

definition GetProfile :: "MemoryConfig \<Rightarrow> SessionProfileConfig" where
  "GetProfile m =
     (let profile = mem_Profile m;
          profile = (if profile_Type profile = [] then profile\<lparr>profile_Type := ''rolling_window''\<rparr>
                     else profile);
          profile = (if profile_MaxTokens profile = 0 then profile\<lparr>profile_MaxTokens := 4096\<rparr>
                     else profile);
          profile = (if profile_SummarizationThreshold profile = 0
                     then profile\<lparr>profile_SummarizationThreshold := 3000\<rparr> else profile)
      in profile)"


section \<open>Go values and Lua values (internal/plugin, bridge)\<close>

text \<open>
  The bridge converts between Go values of static type \<^verbatim>\<open>any\<close> and values of the Lua
  runtime.  The type \<open>'f\<close> stands for \<^verbatim>\<open>float64\<close>, which is also the Lua number type.

  \<open>GOther\<close> is a Go value of any dynamic type that \<^verbatim>\<open>goValueToLua\<close> does not list.
  \<open>LOther s\<close> is a Lua value that is neither nil, boolean, number, string nor table (a
  function, userdata, thread or channel) and whose \<^verbatim>\<open>String()\<close> is \<open>s\<close>.
\<close>

datatype 'f gval =
    GNil
  | GBool bool
  | GInt int
  | GInt64 int
  | GFloat64 'f
  | GString string
  | GSlice "'f gval list"
  | GMap "(string, 'f gval) fmap"
  | GOther

text \<open>
  A Lua table has an array part and a dictionary of string keys.  Entries under keys of
  other kinds are skipped by \<^verbatim>\<open>luaValueToGo\<close> and never made by \<^verbatim>\<open>goValueToLua\<close>; they are
  not represented.
\<close>

datatype 'f lval =
    LNil
  | LBool bool
  | LNumber 'f
  | LString string
  | LTable "'f lval list" "(string, 'f lval) fmap"
  | LOther string

definition NewTable :: "'f lval" where
  "NewTable = LTable [] fmempty"

text \<open>\<^verbatim>\<open>LTable.MaxN\<close>: the position of the last non-nil entry of the array part, else 0.\<close>

definition MaxN :: "'f lval list \<Rightarrow> nat" where
  "MaxN arr = length (rev (dropWhile (\<lambda>v. v = LNil) (rev arr)))"

text \<open>
  \<^verbatim>\<open>LTable.Append\<close>: appending nil does nothing; a value is stored after the last non-nil
  entry of the array part.
\<close>

fun table_Append :: "'f lval \<Rightarrow> 'f lval \<Rightarrow> 'f lval" where
  "table_Append (LTable arr sd) v =
     (if v = LNil then LTable arr sd
      else if arr = [] \<or> last arr \<noteq> LNil then LTable (arr @ [v]) sd
      else LTable (arr[MaxN arr := v]) sd)"
| "table_Append t v = t"

text \<open>
  \<^verbatim>\<open>L.SetField(tbl, k, v)\<close> on a table without metatable is \<^verbatim>\<open>RawSetString\<close>: storing nil
  deletes the key.
\<close>

fun SetField :: "'f lval \<Rightarrow> string \<Rightarrow> 'f lval \<Rightarrow> 'f lval" where
  "SetField (LTable arr sd) k v =
     (if v = LNil then LTable arr (fmdrop k sd) else LTable arr (fmupd k v sd))"
| "SetField t k v = t"

text \<open>
  The loop \<^verbatim>\<open>for k, item := range v { L.SetField(tbl, k, ...) }\<close> over a Go map, whose keys
  are distinct: the fresh table ends with exactly the entries whose converted value is not
  nil, in whatever order the map is ranged over.
\<close>

definition SetFields :: "(string, 'f lval) fmap \<Rightarrow> 'f lval" where
  "SetFields items = LTable [] (fmfilter (\<lambda>k. fmlookup items k \<noteq> Some LNil) items)"

primrec goValueToLua :: "(int \<Rightarrow> 'f) \<Rightarrow> 'f gval \<Rightarrow> 'f lval" where
  "goValueToLua float64 GNil = LNil"
| "goValueToLua float64 (GBool v) = LBool v"
| "goValueToLua float64 (GInt v) = LNumber (float64 v)"
| "goValueToLua float64 (GInt64 v) = LNumber (float64 v)"
| "goValueToLua float64 (GFloat64 v) = LNumber v"
| "goValueToLua float64 (GString v) = LString v"
| "goValueToLua float64 (GSlice v) = foldl table_Append NewTable (map (goValueToLua float64) v)"
| "goValueToLua float64 (GMap v) = SetFields (fmmap (goValueToLua float64) v)"
| "goValueToLua float64 GOther = LString []"


text \<open>\<^verbatim>\<open>goMapToLuaTable\<close>; a nil map is \<open>None\<close>.\<close>

definition goMapToLuaTable :: "(int \<Rightarrow> 'f) \<Rightarrow> (string, 'f gval) fmap option \<Rightarrow> 'f lval" where
  "goMapToLuaTable float64 m =
     (case m of
        None \<Rightarrow> NewTable
      | Some m' \<Rightarrow> SetFields (fmmap (goValueToLua float64) m'))"

subsection \<open>The json module of the sandbox\<close>










subsection \<open>The values of the structured-data codec\<close>







section \<open>Errors, messages and the collaborators of the runner\<close>

text \<open>
  A Go \<^verbatim>\<open>error\<close> is a text, possibly wrapped by \<^verbatim>\<open>fmt.Errorf("...: %w", err)\<close>;
  \<open>Error\<close> is its \<^verbatim>\<open>Error()\<close> method.
\<close>

datatype go_error = ErrorString string | Wrapped string go_error

primrec Error :: "go_error \<Rightarrow> string" where
  "Error (ErrorString s) = s"
| "Error (Wrapped prefix err) = prefix @ Error err"

subsection \<open>Types of the platform SDK (athyr) as the runner uses them\<close>

record ToolCall =
  call_ID :: string
  call_Name :: string
  call_Arguments :: string

record Tool =
  tool_Name :: string
  tool_Description :: string
  tool_Parameters :: string

record Message =
  msg_Role :: string
  msg_Content :: string
  msg_ToolCalls :: "ToolCall list"
  msg_ToolCallID :: string

text \<open>
  The request's \<^verbatim>\<open>Config\<close> holds the constants \<^verbatim>\<open>Temperature: 0.7\<close> and
  \<^verbatim>\<open>MaxTokens: 2048\<close>; the temperature, a floating-point constant, is left out.
\<close>

record CompletionRequest =
  req_Model :: string
  req_Messages :: "Message list"
  req_Tools :: "Tool list"
  req_MaxTokens :: int
  req_ToolChoice :: string
  req_SessionID :: string
  req_IncludeMemory :: bool

record CompletionResponse =
  resp_Content :: string
  resp_Model :: string
  resp_FinishReason :: string
  resp_ToolCalls :: "ToolCall list"
  resp_PromptTokens :: int
  resp_CompletionTokens :: int
  resp_TotalTokens :: int

record SubscribeMessage =
  sub_Subject :: string
  sub_Data :: string
  sub_Reply :: string

record SessionProfile =
  sp_Type :: string
  sp_MaxTokens :: int
  sp_SummarizationThreshold :: int

subsection \<open>Plugin and agent configuration\<close>

text \<open>\<^verbatim>\<open>PluginConfig.Config\<close> is a \<^verbatim>\<open>map[string]any\<close>; \<open>None\<close> is the nil map.\<close>

record 'f PluginConfig =
  plugin_Name :: string
  plugin_File :: string
  plugin_Restrict :: "string list"
  plugin_Config :: "(string, 'f gval) fmap option"

record MCPServerConfig =
  srv_Name :: string
  srv_Command :: "string list"
  srv_URL :: string

record 'f AgentConfig =
  agent_Name :: string
  agent_Description :: string
  agent_Model :: string
  agent_Instructions :: string
  agent_Plugins :: "'f PluginConfig list"
  agent_Topics :: TopicsConfig
  agent_Memory :: MemoryConfig
  agent_MCP_Servers :: "MCPServerConfig list"

subsection \<open>Observable behaviour\<close>

text \<open>
  Everything the runner does to the world outside it is recorded, in order, in a trace:
  the log records (level and message), the calls on the platform agent, on the tool
  servers and on the Lua runtime.  A Lua state is named by a handle.
\<close>

datatype log_level = LevelDebug | LevelInfo | LevelWarn | LevelError

datatype 'f event =
    EvLog log_level string
  | EvComplete CompletionRequest
  | EvCreateSession SessionProfile string
  | EvPublish string string
  | EvSubscribe string
  | EvToolExecutor string string
  | EvSessionCallTool string string string
  | EvLuaNewState nat
  | EvLuaOpenLib nat string
  | EvLuaSetNil nat string
  | EvRegisterBridge nat
  | EvLuaDoFile nat string
  | EvLuaClose nat
  | EvLuaCall nat string "'f lval list"
  | EvLuaGo nat string "'f lval list"
  | EvMCPClose
  | EvAgentClose

text \<open>
  The collaborators are outside the repository.  Each is a function that answers a call
  given everything that has happened so far (the trace up to the call), so that an
  answer may depend on every earlier call, as the answers of a stateful server do.

  \<^item> \<open>env_Complete\<close>, \<open>env_Publish\<close>, \<open>env_CreateSession\<close>, \<open>env_Subscribe\<close>: the methods of
    \<^verbatim>\<open>athyr.Agent\<close>; \<open>env_CreateSession\<close> returns the identifier of the new session.
  \<^item> \<open>env_GetOptions\<close>, \<open>env_NewAgent\<close>, \<open>env_Connect\<close>: parsing the connection options,
    creating the SDK agent and connecting it.
  \<^item> \<open>lua_OpenLib\<close>, \<open>lua_DoFile\<close>, \<open>lua_CallByParam\<close>: the Lua runtime opening a built-in
    library, running a script file, and calling a global function in protected mode;
    \<open>lua_GlobalIsNil\<close> tells whether a global is undefined.
  \<^item> \<open>float64\<close>: Go's conversion of an integer to \<^verbatim>\<open>float64\<close>.
\<close>

record 'f Env =
  float64 :: "int \<Rightarrow> 'f"
  env_Complete :: "'f event list \<Rightarrow> CompletionRequest \<Rightarrow> go_error + CompletionResponse"
  env_Publish :: "'f event list \<Rightarrow> string \<Rightarrow> string \<Rightarrow> go_error option"
  env_CreateSession :: "'f event list \<Rightarrow> SessionProfile \<Rightarrow> string \<Rightarrow> go_error + string"
  env_Subscribe :: "'f event list \<Rightarrow> string \<Rightarrow> go_error option"
  env_GetOptions :: "go_error option"
  env_NewAgent :: "'f event list \<Rightarrow> go_error option"
  env_Connect :: "'f event list \<Rightarrow> go_error option"
  lua_OpenLib :: "'f event list \<Rightarrow> nat \<Rightarrow> string \<Rightarrow> go_error option"
  lua_DoFile :: "'f event list \<Rightarrow> nat \<Rightarrow> string \<Rightarrow> go_error option"
  lua_GlobalIsNil :: "'f event list \<Rightarrow> nat \<Rightarrow> string \<Rightarrow> bool"
  lua_CallByParam :: "'f event list \<Rightarrow> nat \<Rightarrow> string \<Rightarrow> 'f lval list \<Rightarrow> go_error option"

definition emit :: "'f event \<Rightarrow> 'f event list \<Rightarrow> 'f event list" where
  "emit e tr = tr @ [e]"

definition logger :: "log_level \<Rightarrow> string \<Rightarrow> 'f event list \<Rightarrow> 'f event list" where
  "logger lvl msg tr = emit (EvLog lvl msg) tr"

section \<open>The sandbox and the plugin manager (internal/plugin)\<close>

subsection \<open>NewSandbox\<close>

text \<open>
  \<^verbatim>\<open>lua.NewState\<close> yields a fresh state: its handle is the number of states made before.
\<close>

fun is_NewState :: "'f event \<Rightarrow> bool" where
  "is_NewState (EvLuaNewState l) = True"
| "is_NewState e = False"

definition fresh_state :: "'f event list \<Rightarrow> nat" where
  "fresh_state tr = length (filter is_NewState tr)"

text \<open>
  The names of the built-in libraries that \<^verbatim>\<open>NewSandbox\<close> opens, in its order:
  \<^verbatim>\<open>LoadLibName\<close>, \<^verbatim>\<open>BaseLibName\<close> (the empty name), \<^verbatim>\<open>TabLibName\<close>, \<^verbatim>\<open>StringLibName\<close>,
  \<^verbatim>\<open>MathLibName\<close>, \<^verbatim>\<open>OsLibName\<close>.
\<close>

definition safe_libs :: "string list" where
  "safe_libs = [''package'', [], ''table'', ''string'', ''math'', ''os'']"

fun open_libs :: "'f Env \<Rightarrow> nat \<Rightarrow> string list \<Rightarrow> 'f event list \<Rightarrow> go_error option \<times> 'f event list" where
  "open_libs env l [] tr = (None, tr)"
| "open_libs env l (name # names) tr =
     (case lua_OpenLib env tr l name of
        Some err \<Rightarrow>
          (Some (Wrapped (''failed to open library '' @ name @ '': '') err),
           emit (EvLuaClose l) (emit (EvLuaOpenLib l name) tr))
      | None \<Rightarrow> open_libs env l names (emit (EvLuaOpenLib l name) tr))"

definition removed_globals :: "string list" where
  "removed_globals =
     [''dofile'', ''loadfile'', ''os.execute'', ''os.exit'', ''os.getenv'', ''os.remove'',
      ''os.rename'', ''os.setlocale'', ''os.tmpname'']"

definition NewSandbox ::
  "'f Env \<Rightarrow> string list \<Rightarrow> 'f event list \<Rightarrow> (go_error + Sandbox) \<times> 'f event list" where
  "NewSandbox env restr tr =
     (let l = fresh_state tr in
      case open_libs env l safe_libs (emit (EvLuaNewState l) tr) of
        (Some err, tr') \<Rightarrow> (Inl err, tr')
      | (None, tr') \<Rightarrow>
          (Inr \<lparr>L = l, restrict = restr\<rparr>, foldl (\<lambda>t g. emit (EvLuaSetNil l g) t) tr' removed_globals))"

definition Sandbox_Close :: "Sandbox \<Rightarrow> 'f event list \<Rightarrow> 'f event list" where
  "Sandbox_Close s tr = emit (EvLuaClose (L s)) tr"

subsection \<open>Manager\<close>

record 'f pluginState =
  ps_sandbox :: Sandbox
  ps_config :: "(string, 'f gval) fmap option"

record 'f Manager =
  mgr_plugins :: "(string, 'f pluginState) fmap"

definition NewManager :: "'f Manager" where
  "NewManager = \<lparr>mgr_plugins = fmempty\<rparr>"

text \<open>
  \<^verbatim>\<open>LoadPlugin\<close> returns the error, if any, with the manager and the trace as they are
  after the call.
\<close>

definition LoadPlugin ::
  "'f Env \<Rightarrow> 'f PluginConfig \<Rightarrow> 'f Manager \<Rightarrow> 'f event list
     \<Rightarrow> go_error option \<times> 'f Manager \<times> 'f event list" where
  "LoadPlugin env cfg m tr =
     (case NewSandbox env (plugin_Restrict cfg) tr of
        (Inl err, tr1) \<Rightarrow>
          (Some (Wrapped (''failed to create sandbox for plugin '' @ plugin_Name cfg @ '': '') err),
           m, tr1)
      | (Inr sb, tr1) \<Rightarrow>
          (let tr2 = emit (EvRegisterBridge (L sb)) tr1 in
           case lua_DoFile env tr2 (L sb) (plugin_File cfg) of
             Some err \<Rightarrow>
               (Some (Wrapped (''failed to load plugin '' @ plugin_Name cfg @ '' from ''
                               @ plugin_File cfg @ '': '') err),
                m, Sandbox_Close sb (emit (EvLuaDoFile (L sb) (plugin_File cfg)) tr2))
           | None \<Rightarrow>
               (None,
                m\<lparr>mgr_plugins :=
                    fmupd (plugin_Name cfg) \<lparr>ps_sandbox = sb, ps_config = plugin_Config cfg\<rparr>
                      (mgr_plugins m)\<rparr>,
                logger LevelInfo ''loaded plugin''
                  (emit (EvLuaDoFile (L sb) (plugin_File cfg)) tr2))))"

definition HasPlugin :: "'f Manager \<Rightarrow> string \<Rightarrow> bool" where
  "HasPlugin m name = (case fmlookup (mgr_plugins m) name of Some ps \<Rightarrow> True | None \<Rightarrow> False)"

definition IsPlugin :: "'f Manager \<Rightarrow> string \<Rightarrow> bool" where
  "IsPlugin m name = HasPlugin m name"

text \<open>
  \<^verbatim>\<open>StartSubscribe\<close> starts the script's \<^verbatim>\<open>subscribe(config, callback)\<close> on a goroutine of its
  own; the trace records the start, not what the goroutine does afterwards.  The callback
  is a Lua function value.
\<close>

definition StartSubscribe ::
  "'f Env \<Rightarrow> 'f Manager \<Rightarrow> string \<Rightarrow> 'f event list \<Rightarrow> go_error option \<times> 'f event list" where
  "StartSubscribe env m name tr =
     (case fmlookup (mgr_plugins m) name of
        None \<Rightarrow> (Some (ErrorString (''plugin not found: '' @ name)), tr)
      | Some ps \<Rightarrow>
          (let l = L (ps_sandbox ps) in
           if lua_GlobalIsNil env tr l ''subscribe'' then
             (Some (ErrorString (''plugin '' @ name @ '' does not define a subscribe function'')), tr)
           else
             (let configTbl = goMapToLuaTable (float64 env) (ps_config ps);
                  cbFn = LOther ''function''
              in (None,
                  logger LevelInfo ''started subscribe''
                    (emit (EvLuaGo l ''subscribe'' [configTbl, cbFn]) tr)))))"

definition Publish ::
  "'f Env \<Rightarrow> 'f Manager \<Rightarrow> string \<Rightarrow> string \<Rightarrow> 'f event list \<Rightarrow> go_error option \<times> 'f event list" where
  "Publish env m name data tr =
     (case fmlookup (mgr_plugins m) name of
        None \<Rightarrow> (Some (ErrorString (''plugin not found: '' @ name)), tr)
      | Some ps \<Rightarrow>
          (let l = L (ps_sandbox ps) in
           if lua_GlobalIsNil env tr l ''publish'' then
             (Some (ErrorString (''plugin '' @ name @ '' does not define a publish function'')), tr)
           else
             (let configTbl = goMapToLuaTable (float64 env) (ps_config ps);
                  args = [configTbl, LString data]
              in case lua_CallByParam env tr l ''publish'' args of
                   Some err \<Rightarrow>
                     (Some (Wrapped (''plugin '' @ name @ '' publish failed: '') err),
                      emit (EvLuaCall l ''publish'' args) tr)
                 | None \<Rightarrow> (None, emit (EvLuaCall l ''publish'' args) tr))))"

text \<open>
  \<^verbatim>\<open>Close\<close> shuts every sandbox down (here in the order of the names) and empties the map.
\<close>

definition Manager_Close :: "'f Manager \<Rightarrow> 'f event list \<Rightarrow> 'f Manager \<times> 'f event list" where
  "Manager_Close m tr =
     (\<lparr>mgr_plugins = fmempty\<rparr>,
      foldl (\<lambda>t (name, ps). logger LevelDebug ''closed plugin'' (Sandbox_Close (ps_sandbox ps) t))
        tr (sorted_list_of_fmap (mgr_plugins m)))"


section \<open>Tool broker (internal/runner, MCPManager)\<close>

text \<open>
  A tool server session answers \<^verbatim>\<open>CallTool\<close>.  Decoding the raw argument payload into a
  map (encoding/json) and the remote call (the MCP SDK) happen outside the repository;
  the session's answer says which of the three outcomes of lines 878 to 896 arises.
\<close>

datatype mcp_content = TextContent string | OtherContent

datatype session_result =
    InvalidArguments go_error
  | CallFailed go_error
  | CallResult "mcp_content list option"

record 'f MCPManager =
  mcp_tools :: "(string \<times> Tool) list"
  mcp_toolSrc :: "string \<rightharpoonup> string"
  mcp_sessions :: "string \<rightharpoonup> ('f event list \<Rightarrow> string \<Rightarrow> string \<Rightarrow> session_result)"
  mcp_toolExecutor :: "('f event list \<Rightarrow> string \<Rightarrow> string \<Rightarrow> go_error + string) option"

text \<open>\<^verbatim>\<open>GetAthyrTools\<close>: the registered tools, in the order the map is ranged over.\<close>

definition GetAthyrTools :: "'f MCPManager \<Rightarrow> Tool list" where
  "GetAthyrTools m = map snd (mcp_tools m)"

fun extractContent_loop :: "string \<Rightarrow> mcp_content list \<Rightarrow> string" where
  "extractContent_loop text [] = text"
| "extractContent_loop text (TextContent t # cs) =
     extractContent_loop ((if text \<noteq> [] then text @ NL else text) @ t) cs"
| "extractContent_loop text (OtherContent # cs) = extractContent_loop text cs"

definition extractContent :: "mcp_content list option \<Rightarrow> string" where
  "extractContent result =
     (case result of
        None \<Rightarrow> []
      | Some content \<Rightarrow> if length content = 0 then [] else extractContent_loop [] content)"

definition CallTool ::
  "'f MCPManager \<Rightarrow> string \<Rightarrow> string \<Rightarrow> 'f event list \<Rightarrow> (go_error + string) \<times> 'f event list" where
  "CallTool m name args tr =
     (case mcp_toolSrc m name of
        None \<Rightarrow> (Inl (ErrorString (''unknown tool: '' @ name)), tr)
      | Some serverName \<Rightarrow>
          (case mcp_toolExecutor m of
             Some executor \<Rightarrow> (executor tr name args, emit (EvToolExecutor name args) tr)
           | None \<Rightarrow>
               (case mcp_sessions m serverName of
                  None \<Rightarrow> (Inl (ErrorString (''no session for server: '' @ serverName)), tr)
                | Some session \<Rightarrow>
                    (case session tr name args of
                       InvalidArguments err \<Rightarrow> (Inl (Wrapped ''invalid arguments: '' err), tr)
                     | CallFailed err \<Rightarrow>
                         (Inl (Wrapped ''tool call failed: '' err),
                          emit (EvSessionCallTool serverName name args) tr)
                     | CallResult result \<Rightarrow>
                         (Inr (extractContent result),
                          emit (EvSessionCallTool serverName name args) tr)))))"

section \<open>Message handler (internal/runner, MessageHandler)\<close>

definition maxToolIterations :: nat where
  "maxToolIterations = 10"

text \<open>
  The handler's fields: the configuration, the tool broker and the plugin manager (either
  may be nil), and \<^verbatim>\<open>sessions\<close>, the one field that \<^verbatim>\<open>Handle\<close> changes.  The agent is the
  environment, the logger writes to the trace, and the event bus is nil, as it is when the
  runner is started without the terminal display, so \<^verbatim>\<open>emitEvent\<close> does nothing.
\<close>

record 'f MessageHandler =
  h_cfg :: "'f AgentConfig"
  h_mcp :: "'f MCPManager option"
  h_plugins :: "'f Manager option"

record 'f hstate =
  sessions :: "string \<rightharpoonup> string"
  trace :: "'f event list"

definition log :: "log_level \<Rightarrow> string \<Rightarrow> 'f hstate \<Rightarrow> 'f hstate" where
  "log lvl msg st = st\<lparr>trace := logger lvl msg (trace st)\<rparr>"

subsection \<open>parseMessage\<close>

record IncomingMessage =
  in_SessionID :: string
  in_Content :: string

text \<open>
  \<^verbatim>\<open>json.Unmarshal(data, &msg)\<close> for \<^verbatim>\<open>IncomingMessage\<close>, whose fields carry the tags
  \<^verbatim>\<open>json:"session_id,omitempty"\<close> and \<^verbatim>\<open>json:"content,omitempty"\<close>.
\<close>

definition unmarshal_IncomingMessage :: "string \<Rightarrow> IncomingMessage option" where
  "unmarshal_IncomingMessage data =
     map_option
       (\<lambda>vals. \<lparr>in_SessionID = field_value vals ''session_id'',
                in_Content = field_value vals ''content''\<rparr>)
       (unmarshal_struct [''session_id'', ''content''] data)"

definition parseMessage :: "string \<Rightarrow> string \<times> string" where
  "parseMessage data =
     (case unmarshal_IncomingMessage data of
        Some msg \<Rightarrow> if in_Content msg \<noteq> [] then (in_SessionID msg, in_Content msg) else ([], data)
      | None \<Rightarrow> ([], data))"

subsection \<open>extractRouteFrom\<close>

text \<open>
  \<^verbatim>\<open>strings.TrimSpace\<close> removes leading and trailing white space; the six ASCII white-space
  characters are modelled (the function also removes the white space of Unicode).
\<close>

definition is_white :: "char \<Rightarrow> bool" where
  "is_white c =
     (c = CHR '' '' \<or> c = CHR 0x09 \<or> c = CHR 0x0A \<or> c = CHR 0x0B \<or> c = CHR 0x0C \<or> c = CHR 0x0D)"

definition strings_TrimSpace :: "string \<Rightarrow> string" where
  "strings_TrimSpace s = rev (dropWhile is_white (rev (dropWhile is_white s)))"

text \<open>\<^verbatim>\<open>strings.LastIndex\<close>: the last position where \<open>sub\<close> occurs, \<open>None\<close> for -1.\<close>

definition strings_LastIndex :: "string \<Rightarrow> string \<Rightarrow> nat option" where
  "strings_LastIndex s sub =
     find (\<lambda>i. strings_HasPrefix (drop i s) sub) (rev [0 ..< Suc (length s)])"

definition cut_at_last_fence :: "string \<Rightarrow> string" where
  "cut_at_last_fence content =
     (case strings_LastIndex content ''```'' of
        Some idx \<Rightarrow> take idx content
      | None \<Rightarrow> content)"

definition extractJSONFromMarkdown :: "string \<Rightarrow> string" where
  "extractJSONFromMarkdown content0 =
     (let content = strings_TrimSpace content0 in
      if strings_HasPrefix content ''```json'' then
        strings_TrimSpace (cut_at_last_fence (strings_TrimPrefix content ''```json''))
      else if strings_HasPrefix content ''```'' then
        strings_TrimSpace (cut_at_last_fence (strings_TrimPrefix content ''```''))
      else content)"

text \<open>\<^verbatim>\<open>routeResponse\<close> has the single field \<^verbatim>\<open>RouteTo\<close>, tagged \<^verbatim>\<open>json:"route_to"\<close>.\<close>

definition extractRouteFrom :: "string \<Rightarrow> string" where
  "extractRouteFrom content =
     (let jsonContent = extractJSONFromMarkdown content in
      case unmarshal_struct [''route_to''] jsonContent of
        None \<Rightarrow> []
      | Some r \<Rightarrow> field_value r ''route_to'')"

subsection \<open>The published response\<close>

record Response =
  out_Content :: string
  out_Model :: string
  out_SourceTopic :: string
  out_Tokens :: int
  out_FinishReason :: string

text \<open>
  \<^verbatim>\<open>json.Marshal(response)\<close>: the fields in declaration order under their tags.  It cannot
  fail for a struct of strings and an integer, so the branch \<^verbatim>\<open>if err != nil\<close> after it is
  never taken.
\<close>

definition json_Marshal_Response :: "Response \<Rightarrow> string" where
  "json_Marshal_Response r =
     json_print (JObject
       [(''content'', JString (out_Content r)),
        (''model'', JString (out_Model r)),
        (''source_topic'', JString (out_SourceTopic r)),
        (''tokens'', JNumber (itoa (out_Tokens r))),
        (''finish_reason'', JString (out_FinishReason r))])"

subsection \<open>ensureSession\<close>

definition ensureSession ::
  "'f Env \<Rightarrow> 'f MessageHandler \<Rightarrow> string \<Rightarrow> 'f hstate \<Rightarrow> string \<times> 'f hstate" where
  "ensureSession env h userSessionID st =
     (case sessions st userSessionID of
        Some serverID \<Rightarrow> (serverID, st)
      | None \<Rightarrow>
          (let st1 = log LevelInfo ''creating session'' st;
               profile = GetProfile (agent_Memory (h_cfg h));
               sp = \<lparr>sp_Type = profile_Type profile,
                     sp_MaxTokens = profile_MaxTokens profile,
                     sp_SummarizationThreshold = profile_SummarizationThreshold profile\<rparr>;
               instructions = agent_Instructions (h_cfg h);
               result = env_CreateSession env (trace st1) sp instructions;
               st2 = st1\<lparr>trace := emit (EvCreateSession sp instructions) (trace st1)\<rparr>
           in case result of
                Inl err \<Rightarrow> ([], log LevelError ''failed to create session'' st2)
              | Inr session_ID \<Rightarrow>
                  (session_ID,
                   log LevelInfo ''session created''
                     (st2\<lparr>sessions := (sessions st2)(userSessionID \<mapsto> session_ID)\<rparr>))))"

subsection \<open>The tool loop\<close>

definition executeToolCall ::
  "'f MessageHandler \<Rightarrow> ToolCall \<Rightarrow> 'f hstate \<Rightarrow> (go_error + string) \<times> 'f hstate" where
  "executeToolCall h call st =
     (case h_mcp h of
        None \<Rightarrow> (Inl (ErrorString ''no MCP manager configured''), st)
      | Some m \<Rightarrow>
          (case CallTool m (call_Name call) (call_Arguments call) (trace st) of
             (r, tr) \<Rightarrow> (r, st\<lparr>trace := tr\<rparr>)))"

text \<open>The content of the tool-result message of a failed call.\<close>

definition error_payload :: "go_error \<Rightarrow> string" where
  \<open>error_payload err = ''{"error": "'' @ Error err @ ''"}''\<close>


text \<open>\<^verbatim>\<open>for _, call := range resp.ToolCalls\<close>.\<close>

fun run_tool_calls ::
  "'f MessageHandler \<Rightarrow> ToolCall list \<Rightarrow> Message list \<Rightarrow> 'f hstate \<Rightarrow> Message list \<times> 'f hstate" where
  "run_tool_calls h [] messages st = (messages, st)"
| "run_tool_calls h (call # calls) messages st =
     (case executeToolCall h call st of
        (r, st1) \<Rightarrow>
          (case (case r of
                   Inl err \<Rightarrow> (error_payload err, log LevelError ''tool failed'' st1)
                 | Inr result \<Rightarrow> (result, log LevelInfo ''tool executed'' st1)) of
             (result, st2) \<Rightarrow>
               run_tool_calls h calls
                 (messages @ [\<lparr>msg_Role = ''tool'', msg_Content = result, msg_ToolCalls = [],
                               msg_ToolCallID = call_ID call\<rparr>])
                 st2))"

definition make_request ::
  "'f MessageHandler \<Rightarrow> string \<Rightarrow> Tool list \<Rightarrow> Message list \<Rightarrow> CompletionRequest" where
  "make_request h serverSessionID tools messages =
     (let req = \<lparr>req_Model = agent_Model (h_cfg h), req_Messages = messages, req_Tools = tools,
                 req_MaxTokens = 2048, req_ToolChoice = [], req_SessionID = [],
                 req_IncludeMemory = False\<rparr>;
          req = (if length tools > 0 then req\<lparr>req_ToolChoice := ''auto''\<rparr> else req)
      in if mem_Enabled (agent_Memory (h_cfg h)) \<and> serverSessionID \<noteq> []
         then req\<lparr>req_SessionID := serverSessionID, req_IncludeMemory := True\<rparr>
         else req)"

text \<open>
  \<^verbatim>\<open>for i := 0; i < maxToolIterations; i++\<close>, by recursion on the number of iterations left.
  The arguments \<open>messages\<close> and \<open>resp\<close> are the loop's variables.  The result is \<open>None\<close> when
  the completion failed (\<^verbatim>\<open>Handle\<close> returns at once), else the value of \<open>resp\<close> when the
  loop is left, together with the final messages.
\<close>

fun tool_loop ::
  "'f Env \<Rightarrow> 'f MessageHandler \<Rightarrow> string \<Rightarrow> Tool list \<Rightarrow> nat \<Rightarrow> Message list
     \<Rightarrow> CompletionResponse option \<Rightarrow> 'f hstate
     \<Rightarrow> CompletionResponse option option \<times> Message list \<times> 'f hstate" where
  "tool_loop env h serverSessionID tools 0 messages resp st = (Some resp, messages, st)"
| "tool_loop env h serverSessionID tools (Suc n) messages resp st =
     (let req = make_request h serverSessionID tools messages;
          st1 = (if mem_Enabled (agent_Memory (h_cfg h)) \<and> serverSessionID \<noteq> []
                 then log LevelInfo ''using session memory'' st else st);
          st2 = log LevelDebug ''llm request'' st1;
          result = env_Complete env (trace st2) req;
          st3 = st2\<lparr>trace := emit (EvComplete req) (trace st2)\<rparr>
      in case result of
           Inl err \<Rightarrow> (None, messages, log LevelError ''llm failed'' st3)
         | Inr resp' \<Rightarrow>
             (let st4 = log LevelInfo ''llm completed'' st3 in
              if length (resp_ToolCalls resp') = 0 then (Some (Some resp'), messages, st4)
              else
                (let st5 = log LevelDebug ''executing tool calls'' st4;
                     messages1 = messages @ [\<lparr>msg_Role = ''assistant'', msg_Content = [],
                                              msg_ToolCalls = resp_ToolCalls resp',
                                              msg_ToolCallID = []\<rparr>]
                 in case run_tool_calls h (resp_ToolCalls resp') messages1 st5 of
                      (messages2, st6) \<Rightarrow>
                        tool_loop env h serverSessionID tools n messages2 (Some resp') st6)))"

subsection \<open>Routing and dispatch\<close>

text \<open>
  The routing decision on the final text: the route to dispatch to (empty for the default)
  and the state after the log record.
\<close>

definition resolve_route :: "'f MessageHandler \<Rightarrow> string \<Rightarrow> 'f hstate \<Rightarrow> string \<times> 'f hstate" where
  "resolve_route h content st =
     (let routeTo = extractRouteFrom content in
      if routeTo \<noteq> [] \<and> IsValidRoute (agent_Topics (h_cfg h)) routeTo
        then (routeTo, log LevelDebug ''routing response'' st)
      else if routeTo \<noteq> []
        then ([], log LevelWarn ''invalid route_to, using default publish'' st)
      else (routeTo, st))"

definition target_topics :: "'f MessageHandler \<Rightarrow> string \<Rightarrow> string list" where
  "target_topics h routeTo =
     (if routeTo \<noteq> [] then [routeTo] else topics_Publish (agent_Topics (h_cfg h)))"

text \<open>One destination: a loaded plugin of that name, else a topic of the platform.\<close>

definition publish_one ::
  "'f Env \<Rightarrow> 'f MessageHandler \<Rightarrow> CompletionResponse \<Rightarrow> string \<Rightarrow> string \<Rightarrow> 'f hstate
     \<Rightarrow> go_error option \<times> 'f hstate" where
  "publish_one env h resp responseData topic st =
     (if (case h_plugins h of None \<Rightarrow> False | Some m \<Rightarrow> IsPlugin m topic) then
        (case h_plugins h of
           Some m \<Rightarrow>
             (case Publish env m topic (resp_Content resp) (trace st) of
                (pubErr, tr) \<Rightarrow> (pubErr, st\<lparr>trace := tr\<rparr>))
         | None \<Rightarrow> (None, st))
      else
        (env_Publish env (trace st) topic responseData,
         st\<lparr>trace := emit (EvPublish topic responseData) (trace st)\<rparr>))"

text \<open>\<^verbatim>\<open>for _, topic := range targetTopics\<close>.\<close>

fun publish_targets ::
  "'f Env \<Rightarrow> 'f MessageHandler \<Rightarrow> CompletionResponse \<Rightarrow> string \<Rightarrow> string list \<Rightarrow> 'f hstate
     \<Rightarrow> 'f hstate" where
  "publish_targets env h resp responseData [] st = st"
| "publish_targets env h resp responseData (topic # topics) st =
     (case publish_one env h resp responseData topic st of
        (pubErr, st1) \<Rightarrow>
          publish_targets env h resp responseData topics
            (case pubErr of
               Some err \<Rightarrow> log LevelError ''message send failed'' st1
             | None \<Rightarrow> log LevelInfo ''message sent'' st1))"

definition make_response :: "SubscribeMessage \<Rightarrow> CompletionResponse \<Rightarrow> Response" where
  "make_response msg resp =
     \<lparr>out_Content = resp_Content resp, out_Model = resp_Model resp,
      out_SourceTopic = sub_Subject msg, out_Tokens = resp_TotalTokens resp,
      out_FinishReason = resp_FinishReason resp\<rparr>"

text \<open>The direct reply, when the inbound message names a reply subject.\<close>

definition reply :: "'f Env \<Rightarrow> SubscribeMessage \<Rightarrow> string \<Rightarrow> 'f hstate \<Rightarrow> 'f hstate" where
  "reply env msg responseData st =
     (if sub_Reply msg \<noteq> [] then
        (case env_Publish env (trace st) (sub_Reply msg) responseData of
           Some err \<Rightarrow>
             log LevelError ''reply failed''
               (st\<lparr>trace := emit (EvPublish (sub_Reply msg) responseData) (trace st)\<rparr>)
         | None \<Rightarrow> st\<lparr>trace := emit (EvPublish (sub_Reply msg) responseData) (trace st)\<rparr>)
      else st)"

text \<open>The part of \<^verbatim>\<open>Handle\<close> after the tool loop, for a response that is not nil.\<close>

definition dispatch ::
  "'f Env \<Rightarrow> 'f MessageHandler \<Rightarrow> SubscribeMessage \<Rightarrow> CompletionResponse \<Rightarrow> 'f hstate \<Rightarrow> 'f hstate" where
  "dispatch env h msg resp st =
     (case resolve_route h (resp_Content resp) st of
        (routeTo, st1) \<Rightarrow>
          (let responseData = json_Marshal_Response (make_response msg resp);
               targetTopics = target_topics h routeTo
           in log LevelDebug ''request completed''
                (reply env msg responseData
                   (publish_targets env h resp responseData targetTopics st1))))"

subsection \<open>Handle\<close>

definition initial_messages :: "'f MessageHandler \<Rightarrow> string \<Rightarrow> Message list" where
  "initial_messages h content =
     (if agent_Instructions (h_cfg h) \<noteq> [] then
        [\<lparr>msg_Role = ''system'',
          msg_Content =
            (if HasRoutes (agent_Topics (h_cfg h))
             then agent_Instructions (h_cfg h) @ BuildRoutingPrompt (agent_Topics (h_cfg h))
             else agent_Instructions (h_cfg h)),
          msg_ToolCalls = [], msg_ToolCallID = []\<rparr>]
      else [])
     @ [\<lparr>msg_Role = ''user'', msg_Content = content, msg_ToolCalls = [], msg_ToolCallID = []\<rparr>]"

text \<open>
  The part of \<^verbatim>\<open>Handle\<close> before the tool loop: the server session identifier, the initial
  messages, the tools offered, and the state.
\<close>

definition prepare ::
  "'f Env \<Rightarrow> 'f MessageHandler \<Rightarrow> SubscribeMessage \<Rightarrow> 'f hstate
     \<Rightarrow> string \<times> Message list \<times> Tool list \<times> 'f hstate" where
  "prepare env h msg st0 =
     (let st1 = log LevelInfo ''message received'' st0 in
      case parseMessage (sub_Data msg) of
        (userSessionID, content) \<Rightarrow>
          (case (if mem_Enabled (agent_Memory (h_cfg h)) \<and> userSessionID \<noteq> []
                 then ensureSession env h userSessionID st1 else ([], st1)) of
             (serverSessionID, st2) \<Rightarrow>
               (let messages = initial_messages h content in
                case h_mcp h of
                  None \<Rightarrow> (serverSessionID, messages, [], st2)
                | Some m \<Rightarrow>
                    (serverSessionID, messages, GetAthyrTools m,
                     log LevelDebug ''tools available'' st2))))"

definition Handle :: "'f Env \<Rightarrow> 'f MessageHandler \<Rightarrow> SubscribeMessage \<Rightarrow> 'f hstate \<Rightarrow> 'f hstate" where
  "Handle env h msg st0 =
     (case prepare env h msg st0 of
        (serverSessionID, messages, tools, st3) \<Rightarrow>
          (case tool_loop env h serverSessionID tools maxToolIterations messages None st3 of
             (None, messages', st4) \<Rightarrow> st4
           | (Some None, messages', st4) \<Rightarrow> log LevelError ''no response after tool loop'' st4
           | (Some (Some resp), messages', st4) \<Rightarrow> dispatch env h msg resp st4))"


section \<open>Runner (internal/runner, Runner.Run)\<close>

text \<open>
  \<^verbatim>\<open>Run\<close> connects the agent, starts the tool broker, loads the plugins, subscribes to the
  configured sources and then waits for the shutdown signal.  Its model returns the error
  (if any) and the trace when \<^verbatim>\<open>Run\<close> returns, the deferred calls included.  Starting the
  tool broker (\<^verbatim>\<open>MCPManager.Start\<close>) is the parameter \<open>mcpStart\<close>.  What the handler does with
  the messages that arrive while \<^verbatim>\<open>Run\<close> waits is \<open>Handle\<close>, not part of this trace.
\<close>

text \<open>\<^verbatim>\<open>for _, p := range r.cfg.Agent.Plugins\<close>: the first failure ends \<^verbatim>\<open>Run\<close>.\<close>

fun load_plugins ::
  "'f Env \<Rightarrow> 'f PluginConfig list \<Rightarrow> 'f Manager \<Rightarrow> 'f event list
     \<Rightarrow> go_error option \<times> 'f Manager \<times> 'f event list" where
  "load_plugins env [] m tr = (None, m, tr)"
| "load_plugins env (p # ps) m tr =
     (case LoadPlugin env p m tr of
        (Some err, m', tr') \<Rightarrow>
          (Some (Wrapped (''failed to load plugin '' @ plugin_Name p @ '': '') err), m', tr')
      | (None, m', tr') \<Rightarrow> load_plugins env ps m' tr')"

text \<open>\<^verbatim>\<open>for _, topic := range r.cfg.Agent.Topics.Subscribe\<close>.\<close>

fun subscribe_topics ::
  "'f Env \<Rightarrow> 'f Manager option \<Rightarrow> string list \<Rightarrow> 'f event list \<Rightarrow> go_error option \<times> 'f event list" where
  "subscribe_topics env pluginMgr [] tr = (None, tr)"
| "subscribe_topics env pluginMgr (topic # topics) tr =
     (if (case pluginMgr of None \<Rightarrow> False | Some m \<Rightarrow> IsPlugin m topic) then
        (case pluginMgr of
           Some m \<Rightarrow>
             (case StartSubscribe env m topic (logger LevelInfo ''starting plugin subscribe'' tr) of
                (Some err, tr') \<Rightarrow>
                  (Some (Wrapped (''failed to start plugin subscribe for '' @ topic @ '': '') err), tr')
              | (None, tr') \<Rightarrow> subscribe_topics env pluginMgr topics tr')
         | None \<Rightarrow> (None, tr))
      else
        (let tr1 = logger LevelInfo ''subscribing to topic'' tr in
         case env_Subscribe env tr1 topic of
           Some err \<Rightarrow>
             (Some (Wrapped (''failed to subscribe to '' @ topic @ '': '') err),
              emit (EvSubscribe topic) tr1)
         | None \<Rightarrow> subscribe_topics env pluginMgr topics (emit (EvSubscribe topic) tr1)))"

definition Run_subscribe ::
  "'f Env \<Rightarrow> 'f AgentConfig \<Rightarrow> 'f Manager option \<Rightarrow> 'f event list
     \<Rightarrow> go_error option \<times> 'f event list" where
  "Run_subscribe env cfg pluginMgr tr =
     (case subscribe_topics env pluginMgr (topics_Subscribe (agent_Topics cfg)) tr of
        (Some err, tr') \<Rightarrow> (Some err, tr')
      | (None, tr') \<Rightarrow> (None, logger LevelInfo ''agent running'' tr'))"

text \<open>
  The plugin phase.  \<^verbatim>\<open>defer pluginMgr.Close()\<close> is registered after the loading loop, so
  it runs only when every plugin has been loaded.
\<close>

definition Run_plugins ::
  "'f Env \<Rightarrow> 'f AgentConfig \<Rightarrow> 'f event list \<Rightarrow> go_error option \<times> 'f event list" where
  "Run_plugins env cfg tr =
     (if length (agent_Plugins cfg) > 0 then
        (case load_plugins env (agent_Plugins cfg) NewManager tr of
           (Some err, pluginMgr, tr') \<Rightarrow> (Some err, tr')
         | (None, pluginMgr, tr') \<Rightarrow>
             (case Run_subscribe env cfg (Some pluginMgr) tr' of
                (r, tr'') \<Rightarrow> (r, snd (Manager_Close pluginMgr tr''))))
      else Run_subscribe env cfg None tr)"

definition Run_connected ::
  "'f Env \<Rightarrow> ('f event list \<Rightarrow> MCPServerConfig list \<Rightarrow> go_error + 'f MCPManager)
     \<Rightarrow> 'f AgentConfig \<Rightarrow> 'f event list \<Rightarrow> go_error option \<times> 'f event list" where
  "Run_connected env mcpStart cfg tr =
     (if length (agent_MCP_Servers cfg) > 0 then
        (case mcpStart tr (agent_MCP_Servers cfg) of
           Inl err \<Rightarrow> (Some (Wrapped ''failed to start MCP manager: '' err), tr)
         | Inr mcpMgr \<Rightarrow>
             (case Run_plugins env cfg (logger LevelInfo ''MCP tools available'' tr) of
                (r, tr') \<Rightarrow> (r, emit EvMCPClose tr')))
      else Run_plugins env cfg tr)"

definition Run ::
  "'f Env \<Rightarrow> ('f event list \<Rightarrow> MCPServerConfig list \<Rightarrow> go_error + 'f MCPManager)
     \<Rightarrow> 'f AgentConfig \<Rightarrow> 'f event list \<Rightarrow> go_error option \<times> 'f event list" where
  "Run env mcpStart cfg tr =
     (case env_GetOptions env of
        Some err \<Rightarrow> (Some (Wrapped ''invalid connection config: '' err), tr)
      | None \<Rightarrow>
          (case env_NewAgent env tr of
             Some err \<Rightarrow> (Some (Wrapped ''failed to create agent: '' err), tr)
           | None \<Rightarrow>
               (let tr1 = logger LevelInfo ''connecting to server'' tr in
                case env_Connect env tr1 of
                  Some err \<Rightarrow> (Some (Wrapped ''failed to connect: '' err), tr1)
                | None \<Rightarrow>
                    (case Run_connected env mcpStart cfg (logger LevelInfo ''connected'' tr1) of
                       (r, tr2) \<Rightarrow>
                         (r, emit EvAgentClose (logger LevelInfo ''disconnected'' tr2))))))"

subsection \<open>What a trace shows\<close>

text \<open>The completion requests, in order.\<close>

fun completions :: "'f event list \<Rightarrow> CompletionRequest list" where
  "completions [] = []"
| "completions (EvComplete req # es) = req # completions es"
| "completions (e # es) = completions es"

text \<open>The session-creation calls.\<close>

fun session_creations :: "'f event list \<Rightarrow> nat" where
  "session_creations [] = 0"
| "session_creations (EvCreateSession sp instr # es) = Suc (session_creations es)"
| "session_creations (e # es) = session_creations es"

text \<open>
  The deliveries, in order: a platform publish as the topic and the bytes sent, a plugin
  publish as the Lua state and the datum handed to its \<^verbatim>\<open>publish\<close> function.
\<close>

datatype delivery = ToTopic string string | ToPlugin nat string

fun deliveries :: "'f event list \<Rightarrow> delivery list" where
  "deliveries [] = []"
| "deliveries (EvPublish topic data # es) = ToTopic topic data # deliveries es"
| "deliveries (EvLuaCall l fn [cfg, LString data] # es) =
     (if fn = ''publish'' then ToPlugin l data # deliveries es else deliveries es)"
| "deliveries (e # es) = deliveries es"

text \<open>The log records of one level.\<close>

fun logged :: "log_level \<Rightarrow> 'f event list \<Rightarrow> string list" where
  "logged lvl [] = []"
| "logged lvl (EvLog lvl' msg # es) = (if lvl' = lvl then msg # logged lvl es else logged lvl es)"
| "logged lvl (e # es) = logged lvl es"

text \<open>The script files run, the Lua states closed, and the sources started.\<close>

fun files_run :: "'f event list \<Rightarrow> string list" where
  "files_run [] = []"
| "files_run (EvLuaDoFile l file # es) = file # files_run es"
| "files_run (e # es) = files_run es"

fun states_closed :: "'f event list \<Rightarrow> nat list" where
  "states_closed [] = []"
| "states_closed (EvLuaClose l # es) = l # states_closed es"
| "states_closed (e # es) = states_closed es"

fun sources_started :: "'f event list \<Rightarrow> string list" where
  "sources_started [] = []"
| "sources_started (EvSubscribe topic # es) = topic # sources_started es"
| "sources_started (EvLuaGo l fn args # es) = fn # sources_started es"
| "sources_started (e # es) = sources_started es"

text \<open>
  The answers of the agent to the completion requests of a trace, in order: each request
  is answered on the trace before it.  The first argument is the trace so far.
\<close>

fun answers ::
  "'f Env \<Rightarrow> 'f event list \<Rightarrow> 'f event list \<Rightarrow> (go_error + CompletionResponse) list" where
  "answers env pre [] = []"
| "answers env pre (EvComplete req # es) =
     env_Complete env pre req # answers env (pre @ [EvComplete req]) es"
| "answers env pre (e # es) = answers env (pre @ [e]) es"

text \<open>The events that are neither a completion request nor a session creation.\<close>

fun quiet :: "'f event \<Rightarrow> bool" where
  "quiet (EvComplete req) = False"
| "quiet (EvCreateSession sp instr) = False"
| "quiet e = True"






section \<open>A concrete environment for examples\<close>

text \<open>
  An agent in the manner of the test suite's \<^verbatim>\<open>mockAgent\<close>: every completion answers
  \<^verbatim>\<open>mock response\<close> without tool calls, every publish succeeds, and a created session is
  named after its profile type.  The Lua runtime runs every script except \<^verbatim>\<open>bad.lua\<close>,
  and every script defines both entry points.
\<close>

definition mock_response :: CompletionResponse where
  "mock_response =
     \<lparr>resp_Content = ''mock response'', resp_Model = ''gpt-4'', resp_FinishReason = ''stop'',
      resp_ToolCalls = [], resp_PromptTokens = 0, resp_CompletionTokens = 0,
      resp_TotalTokens = 0\<rparr>"

definition mock_env :: "int Env" where
  "mock_env =
     \<lparr>float64 = (\<lambda>i. i),
      env_Complete = (\<lambda>tr req. Inr mock_response),
      env_Publish = (\<lambda>tr subject data. None),
      env_CreateSession = (\<lambda>tr sp instr. Inr (''server-sess-'' @ sp_Type sp)),
      env_Subscribe = (\<lambda>tr topic. None),
      env_GetOptions = None,
      env_NewAgent = (\<lambda>tr. None),
      env_Connect = (\<lambda>tr. None),
      lua_OpenLib = (\<lambda>tr l name. None),
      lua_DoFile = (\<lambda>tr l file. if file = ''bad.lua'' then Some (ErrorString ''syntax error'') else None),
      lua_GlobalIsNil = (\<lambda>tr l name. False),
      lua_CallByParam = (\<lambda>tr l fn args. None)\<rparr>"

definition mock_topics :: TopicsConfig where
  "mock_topics =
     \<lparr>topics_Subscribe = [''input''], topics_Publish = [''output''],
      topics_Routes = [\<lparr>route_Topic = ''billing'', route_Description = ''Billing issues''\<rparr>]\<rparr>"

definition mock_memory :: MemoryConfig where
  "mock_memory =
     \<lparr>mem_Enabled = True, mem_SessionPrefix = [], mem_TTL = [],
      mem_Profile = \<lparr>profile_Type = [], profile_MaxTokens = 0, profile_SummarizationThreshold = 0\<rparr>\<rparr>"

definition mock_cfg :: "int AgentConfig" where
  "mock_cfg =
     \<lparr>agent_Name = ''test'', agent_Description = [], agent_Model = ''gpt-4'',
      agent_Instructions = [], agent_Plugins = [], agent_Topics = mock_topics,
      agent_Memory = mock_memory, agent_MCP_Servers = []\<rparr>"

definition mock_handler :: "int MessageHandler" where
  "mock_handler = \<lparr>h_cfg = mock_cfg, h_mcp = None, h_plugins = None\<rparr>"

definition empty_state :: "int hstate" where
  "empty_state = \<lparr>sessions = Map.empty, trace = []\<rparr>"

definition message_on :: "string \<Rightarrow> string \<Rightarrow> SubscribeMessage" where
  "message_on subject data = \<lparr>sub_Subject = subject, sub_Data = data, sub_Reply = []\<rparr>"

text \<open>A model that asks for a tool on every completion.\<close>

definition looping_response :: CompletionResponse where
  "looping_response =
     mock_response\<lparr>resp_Content := [], resp_FinishReason := ''tool_calls'',
       resp_ToolCalls := [\<lparr>call_ID = ''call_1'', call_Name = ''test_tool'', call_Arguments = ''{}''\<rparr>]\<rparr>"

definition looping_env :: "int Env" where
  "looping_env = mock_env\<lparr>env_Complete := (\<lambda>tr req. Inr looping_response)\<rparr>"



text \<open>Two plugins, of which the first has a script that does not load.\<close>

definition broken_plugins :: "int PluginConfig list" where
  "broken_plugins =
     [\<lparr>plugin_Name = ''watcher'', plugin_File = ''bad.lua'', plugin_Restrict = [],
        plugin_Config = None\<rparr>,
      \<lparr>plugin_Name = ''sink'', plugin_File = ''sink.lua'', plugin_Restrict = [],
        plugin_Config = None\<rparr>]"

definition broken_cfg :: "int AgentConfig" where
  "broken_cfg = mock_cfg\<lparr>agent_Plugins := broken_plugins\<rparr>"

definition no_mcp :: "int event list \<Rightarrow> MCPServerConfig list \<Rightarrow> go_error + int MCPManager" where
  "no_mcp tr servers = Inl (ErrorString ''no MCP servers'')"


section \<open>Properties of the restriction check\<close>

lemma strings_Contains_dot: "strings_Contains r ''.'' = (CHR ''.'' \<in> set r)"
  by (induction r) (auto simp: strings_HasPrefix_def)

lemma HasPrefix_dot_iff:
  assumes "CHR ''.'' \<notin> set r"
  shows "strings_HasPrefix api (r @ ''.'') = (module_prefix api = Some r)"
proof
  assume "strings_HasPrefix api (r @ ''.'')"
  then have "take (length r + 1) api = r @ ''.''"
    by (simp add: strings_HasPrefix_def)
  then have "api = (r @ ''.'') @ drop (length r + 1) api"
    by (metis append_take_drop_id)
  then obtain rest where api: "api = r @ CHR ''.'' # rest"
    by (metis append_Cons append_Nil append_assoc)
  have "takeWhile (\<lambda>c. c \<noteq> CHR ''.'') (r @ CHR ''.'' # rest) = r"
    using assms by (auto simp: takeWhile_tail)
  then show "module_prefix api = Some r"
    by (simp add: module_prefix_def api)
next
  assume "module_prefix api = Some r"
  then have mem: "CHR ''.'' \<in> set api" and r: "r = takeWhile (\<lambda>c. c \<noteq> CHR ''.'') api"
    by (auto simp: module_prefix_def split: if_splits)
  have split: "api = r @ dropWhile (\<lambda>c. c \<noteq> CHR ''.'') api"
    by (simp add: r)
  have ne: "dropWhile (\<lambda>c. c \<noteq> CHR ''.'') api \<noteq> []"
    using mem by auto
  then have "hd (dropWhile (\<lambda>c. c \<noteq> CHR ''.'') api) = CHR ''.''"
    using hd_dropWhile [of "\<lambda>c. c \<noteq> CHR ''.''" api] by simp
  with ne obtain rest where "dropWhile (\<lambda>c. c \<noteq> CHR ''.'') api = CHR ''.'' # rest"
    by (cases "dropWhile (\<lambda>c. c \<noteq> CHR ''.'') api") auto
  with split have "api = (r @ ''.'') @ rest"
    by simp
  then have "take (length (r @ ''.'')) api = r @ ''.''"
    by (metis append_eq_conv_conj)
  then show "strings_HasPrefix api (r @ ''.'')"
    by (simp only: strings_HasPrefix_def)
qed

lemma module_prefix_bare: "module_prefix p = Some m \<Longrightarrow> bare_entry m"
  by (auto simp: module_prefix_def bare_entry_def split: if_splits dest: set_takeWhileD)

lemma IsRestricted_loop_iff:
  "IsRestricted_loop R p = spec_isRestricted R p"
proof (induction R)
  case Nil
  show ?case
    by (simp add: spec_isRestricted_def split: option.splits)
next
  case (Cons r R)
  show ?case
  proof (cases "CHR ''.'' \<in> set r")
    case True
    then have "module_prefix p \<noteq> Some r"
      using module_prefix_bare [of p r] by (auto simp: bare_entry_def)
    with True Cons show ?thesis
      by (auto simp: spec_isRestricted_def strings_Contains_dot split: option.splits)
  next
    case False
    with Cons show ?thesis
      by (auto simp: spec_isRestricted_def strings_Contains_dot HasPrefix_dot_iff bare_entry_def
               split: option.splits)
  qed
qed

text \<open>
  Claim C2.  For every restriction list and capability path, \<^verbatim>\<open>IsRestricted\<close> answers
  true exactly when the list contains the path verbatim or contains the path's module
  prefix as a bare (dot-free) entry; with an empty (or nil) restriction list no path is
  restricted.
\<close>

theorem IsRestricted_iff_spec:
  "IsRestricted s p = spec_isRestricted (restrict s) p
   \<and> IsRestricted (s\<lparr>restrict := []\<rparr>) p = False"
  by (cases "restrict s")
     (simp_all add: IsRestricted_def IsRestricted_loop_iff spec_isRestricted_def
                split: option.splits)

theorem IsRestricted_iff_spec_witness:
  "IsRestricted \<lparr>L = 0, restrict = [''fs'', ''http.post'']\<rparr> ''fs.write''
   \<and> IsRestricted \<lparr>L = 0, restrict = [''fs'', ''http.post'']\<rparr> ''http.post''
   \<and> \<not> IsRestricted \<lparr>L = 0, restrict = [''fs'', ''http.post'']\<rparr> ''http.get''
   \<and> \<not> IsRestricted \<lparr>L = 0, restrict = []\<rparr> ''fs.write''"
  using IsRestricted_iff_spec [of "\<lparr>L = 0, restrict = [''fs'', ''http.post'']\<rparr>" "''fs.write''"]
        IsRestricted_iff_spec [of "\<lparr>L = 0, restrict = [''fs'', ''http.post'']\<rparr>" "''http.post''"]
        IsRestricted_iff_spec [of "\<lparr>L = 0, restrict = [''fs'', ''http.post'']\<rparr>" "''http.get''"]
  by (simp add: spec_isRestricted_def module_prefix_def bare_entry_def IsRestricted_def)


section \<open>Traces of the handler's steps\<close>

lemma completions_append [simp]: "completions (xs @ ys) = completions xs @ completions ys"
  by (induction xs rule: completions.induct) auto

lemma session_creations_append [simp]:
  "session_creations (xs @ ys) = session_creations xs + session_creations ys"
  by (induction xs rule: session_creations.induct) auto

lemma deliveries_append [simp]: "deliveries (xs @ ys) = deliveries xs @ deliveries ys"
  by (induction xs rule: deliveries.induct) auto

lemma logged_append [simp]: "logged lvl (xs @ ys) = logged lvl xs @ logged lvl ys"
  by (induction lvl xs rule: logged.induct) auto

lemma files_run_append [simp]: "files_run (xs @ ys) = files_run xs @ files_run ys"
  by (induction xs rule: files_run.induct) auto

lemma states_closed_append [simp]: "states_closed (xs @ ys) = states_closed xs @ states_closed ys"
  by (induction xs rule: states_closed.induct) auto

lemma sources_started_append [simp]:
  "sources_started (xs @ ys) = sources_started xs @ sources_started ys"
  by (induction xs rule: sources_started.induct) auto

lemma answers_append:
  "answers env pre (xs @ ys) = answers env pre xs @ answers env (pre @ xs) ys"
  by (induction env pre xs rule: answers.induct) auto

lemma quiet_completions: "list_all quiet ext \<Longrightarrow> completions ext = []"
  by (induction ext rule: completions.induct) auto

lemma quiet_session_creations: "list_all quiet ext \<Longrightarrow> session_creations ext = 0"
  by (induction ext rule: session_creations.induct) auto

lemma quiet_answers: "list_all quiet ext \<Longrightarrow> answers env pre ext = []"
  by (induction env pre ext rule: answers.induct) auto

lemma CallTool_trace:
  "\<exists>ext. snd (CallTool m name args tr) = tr @ ext \<and> list_all quiet ext"
  by (auto simp: CallTool_def emit_def split: option.splits session_result.splits)

lemma executeToolCall_trace:
  "\<exists>ext. trace (snd (executeToolCall h call st)) = trace st @ ext \<and> list_all quiet ext"
  using CallTool_trace [of _ "call_Name call" "call_Arguments call" "trace st"]
  by (auto simp: executeToolCall_def split: option.splits prod.splits) (metis snd_conv)

lemma executeToolCall_sessions:
  "sessions (snd (executeToolCall h call st)) = sessions st"
  by (auto simp: executeToolCall_def split: option.splits prod.splits)

lemma run_tool_calls_trace:
  "\<exists>ext. trace (snd (run_tool_calls h calls msgs st)) = trace st @ ext \<and> list_all quiet ext"
proof (induction calls arbitrary: msgs st)
  case Nil
  show ?case by simp
next
  case (Cons call calls)
  obtain r st1 where ex: "executeToolCall h call st = (r, st1)"
    by (cases "executeToolCall h call st")
  obtain ext1 where e1: "trace st1 = trace st @ ext1" "list_all quiet ext1"
    using executeToolCall_trace [of h call st] ex by auto
  define st2 where "st2 = (case r of Inl err \<Rightarrow> log LevelError ''tool failed'' st1
                            | Inr result \<Rightarrow> log LevelInfo ''tool executed'' st1)"
  define result where "result = (case r of Inl err \<Rightarrow> error_payload err | Inr res \<Rightarrow> res)"
  have e2: "\<exists>l. trace st2 = trace st1 @ [l] \<and> quiet l"
    by (auto simp: st2_def log_def logger_def emit_def split: sum.splits)
  have step: "run_tool_calls h (call # calls) msgs st =
        run_tool_calls h calls
          (msgs @ [\<lparr>msg_Role = ''tool'', msg_Content = result, msg_ToolCalls = [],
                    msg_ToolCallID = call_ID call\<rparr>]) st2"
    by (simp add: ex st2_def result_def split: sum.splits)
  obtain l where l: "trace st2 = trace st1 @ [l]" "quiet l"
    using e2 by blast
  obtain ext2 where e3:
    "trace (snd (run_tool_calls h calls
          (msgs @ [\<lparr>msg_Role = ''tool'', msg_Content = result, msg_ToolCalls = [],
                    msg_ToolCallID = call_ID call\<rparr>]) st2)) = trace st2 @ ext2"
    "list_all quiet ext2"
    using Cons.IH by blast
  show ?case
    unfolding step using e1 l e3
    by (intro exI [of _ "ext1 @ [l] @ ext2"]) simp
qed

lemma run_tool_calls_sessions:
  "sessions (snd (run_tool_calls h calls msgs st)) = sessions st"
proof (induction calls arbitrary: msgs st)
  case Nil
  show ?case by simp
next
  case (Cons call calls)
  show ?case
    using executeToolCall_sessions [of h call st]
    by (auto simp: Cons.IH log_def split: prod.splits sum.splits)
qed


section \<open>The tool loop\<close>

text \<open>One iteration of the tool loop, with the state just after the completion call.\<close>

lemma tool_loop_Suc:
  fixes env :: "'f Env" and st :: "'f hstate" and h :: "'f MessageHandler" and s :: string
    and tools :: "Tool list" and msgs :: "Message list"
  defines "st2 \<equiv> log LevelDebug ''llm request''
                   (if mem_Enabled (agent_Memory (h_cfg h)) \<and> s \<noteq> []
                    then log LevelInfo ''using session memory'' st else st)"
  defines "req \<equiv> make_request h s tools msgs"
  defines "st3 \<equiv> st2\<lparr>trace := emit (EvComplete req) (trace st2)\<rparr>"
  shows "tool_loop env h s tools (Suc n) msgs r st =
     (case env_Complete env (trace st2) req of
        Inl err \<Rightarrow> (None, msgs, log LevelError ''llm failed'' st3)
      | Inr resp' \<Rightarrow>
          if resp_ToolCalls resp' = [] then (Some (Some resp'), msgs, log LevelInfo ''llm completed'' st3)
          else
            (case run_tool_calls h (resp_ToolCalls resp')
                    (msgs @ [\<lparr>msg_Role = ''assistant'', msg_Content = [],
                              msg_ToolCalls = resp_ToolCalls resp', msg_ToolCallID = []\<rparr>])
                    (log LevelDebug ''executing tool calls'' (log LevelInfo ''llm completed'' st3)) of
               (msgs2, st6) \<Rightarrow> tool_loop env h s tools n msgs2 (Some resp') st6))"
  by (simp only: tool_loop.simps Let_def st2_def req_def st3_def length_0_conv)

declare tool_loop.simps(2) [simp del]

lemma loop_prefix:
  fixes st :: "'f hstate" and h :: "'f MessageHandler" and s :: string
  defines "st2 \<equiv> log LevelDebug ''llm request''
                   (if mem_Enabled (agent_Memory (h_cfg h)) \<and> s \<noteq> []
                    then log LevelInfo ''using session memory'' st else st)"
  shows "\<exists>ls. trace st2 = trace st @ ls \<and> list_all quiet ls" and "sessions st2 = sessions st"
  by (auto simp: st2_def log_def logger_def emit_def)

lemma make_request_SessionID:
  "req_SessionID (make_request h s tools msgs) =
     (if mem_Enabled (agent_Memory (h_cfg h)) \<and> s \<noteq> [] then s else [])"
  by (simp add: make_request_def Let_def)

lemma tool_loop_trace:
  "tool_loop env h s tools n msgs r st = (out, msgs', st') \<Longrightarrow>
     \<exists>ext. trace st' = trace st @ ext \<and> session_creations ext = 0
           \<and> length (completions ext) \<le> n \<and> sessions st' = sessions st
           \<and> (\<forall>req \<in> set (completions ext).
                 req_SessionID req =
                   (if mem_Enabled (agent_Memory (h_cfg h)) \<and> s \<noteq> [] then s else []))"
proof (induction n arbitrary: msgs r st out msgs' st')
  case 0
  then show ?case by simp
next
  case (Suc n)
  define st2 where "st2 = log LevelDebug ''llm request''
                   (if mem_Enabled (agent_Memory (h_cfg h)) \<and> s \<noteq> []
                    then log LevelInfo ''using session memory'' st else st)"
  define req where "req = make_request h s tools msgs"
  define st3 where "st3 = st2\<lparr>trace := emit (EvComplete req) (trace st2)\<rparr>"
  obtain ls where ls: "trace st2 = trace st @ ls" "list_all quiet ls" and s2: "sessions st2 = sessions st"
    using loop_prefix [of h s st] unfolding st2_def by blast
  have t3: "trace st3 = trace st @ ls @ [EvComplete req]" and s3: "sessions st3 = sessions st"
    by (simp_all add: st3_def emit_def ls s2)
  have sid: "req_SessionID req = (if mem_Enabled (agent_Memory (h_cfg h)) \<and> s \<noteq> [] then s else [])"
    by (simp add: req_def make_request_SessionID)
  note step = tool_loop_Suc [of env h s tools n msgs r st, folded st2_def req_def st3_def]
  show ?case
  proof (cases "env_Complete env (trace st2) req")
    case (Inl err)
    with Suc.prems step have "st' = log LevelError ''llm failed'' st3"
      by (auto simp: st3_def)
    then show ?thesis
      using t3 s3 ls sid
      by (intro exI [of _ "ls @ [EvComplete req] @ [EvLog LevelError ''llm failed'']"])
         (simp add: log_def logger_def emit_def quiet_completions quiet_session_creations)
  next
    case (Inr resp')
    show ?thesis
    proof (cases "resp_ToolCalls resp' = []")
      case True
      with Inr Suc.prems step have "st' = log LevelInfo ''llm completed'' st3"
        by (auto simp: st3_def)
      then show ?thesis
        using t3 s3 ls sid
        by (intro exI [of _ "ls @ [EvComplete req] @ [EvLog LevelInfo ''llm completed'']"])
           (simp add: log_def logger_def emit_def quiet_completions quiet_session_creations)
    next
      case False
      define st5 where "st5 = log LevelDebug ''executing tool calls'' (log LevelInfo ''llm completed'' st3)"
      define msgs1 where "msgs1 = msgs @ [\<lparr>msg_Role = ''assistant'', msg_Content = [],
                              msg_ToolCalls = resp_ToolCalls resp', msg_ToolCallID = []\<rparr>]"
      obtain msgs2 st6 where rt: "run_tool_calls h (resp_ToolCalls resp') msgs1 st5 = (msgs2, st6)"
        by (cases "run_tool_calls h (resp_ToolCalls resp') msgs1 st5")
      have t5: "trace st5 = trace st @ ls @ [EvComplete req, EvLog LevelInfo ''llm completed'',
                   EvLog LevelDebug ''executing tool calls'']"
        and s5: "sessions st5 = sessions st"
        by (simp_all add: st5_def log_def logger_def emit_def t3 s3)
      obtain ext2 where e2: "trace st6 = trace st5 @ ext2" "list_all quiet ext2"
        using run_tool_calls_trace [of h "resp_ToolCalls resp'" msgs1 st5] rt by auto
      have s6: "sessions st6 = sessions st"
        using run_tool_calls_sessions [of h "resp_ToolCalls resp'" msgs1 st5] rt s5 by simp
      have rec: "tool_loop env h s tools n msgs2 (Some resp') st6 = (out, msgs', st')"
        using Suc.prems step Inr False rt by (simp add: st5_def msgs1_def st3_def)
      from Suc.IH [OF rec] obtain ext3 where e3:
        "trace st' = trace st6 @ ext3" "session_creations ext3 = 0"
        "length (completions ext3) \<le> n" "sessions st' = sessions st6"
        "\<forall>req \<in> set (completions ext3). req_SessionID req =
             (if mem_Enabled (agent_Memory (h_cfg h)) \<and> s \<noteq> [] then s else [])"
        by blast
      show ?thesis
        using e3 e2 t5 s6 ls sid
        by (intro exI [of _ "ls @ [EvComplete req, EvLog LevelInfo ''llm completed'',
                   EvLog LevelDebug ''executing tool calls''] @ ext2 @ ext3"])
           (simp add: quiet_completions quiet_session_creations)
    qed
  qed
qed


section \<open>The loop under a model that always asks for tools; dispatch\<close>

lemma tool_loop_always_tools:
  assumes always: "\<And>tr req. \<exists>resp. env_Complete env tr req = Inr resp \<and> resp_ToolCalls resp \<noteq> []"
  shows "\<exists>r' msgs' st' ext.
           tool_loop env h s tools n msgs r st = (Some r', msgs', st')
           \<and> trace st' = trace st @ ext \<and> length (completions ext) = n
           \<and> (if n = 0 then r' = r
               else \<exists>resp. r' = Some resp \<and> answers env (trace st) ext \<noteq> []
                         \<and> last (answers env (trace st) ext) = Inr resp)"
proof (induction n arbitrary: msgs r st)
  case 0
  show ?case by simp
next
  case (Suc n)
  define st2 where "st2 = log LevelDebug ''llm request''
                   (if mem_Enabled (agent_Memory (h_cfg h)) \<and> s \<noteq> []
                    then log LevelInfo ''using session memory'' st else st)"
  define req where "req = make_request h s tools msgs"
  define st3 where "st3 = st2\<lparr>trace := emit (EvComplete req) (trace st2)\<rparr>"
  obtain ls where ls: "trace st2 = trace st @ ls" "list_all quiet ls"
    using loop_prefix(1) [of h s st] unfolding st2_def by blast
  obtain resp' where resp': "env_Complete env (trace st2) req = Inr resp'" "resp_ToolCalls resp' \<noteq> []"
    using always by blast
  define st5 where "st5 = log LevelDebug ''executing tool calls'' (log LevelInfo ''llm completed'' st3)"
  define msgs1 where "msgs1 = msgs @ [\<lparr>msg_Role = ''assistant'', msg_Content = [],
                          msg_ToolCalls = resp_ToolCalls resp', msg_ToolCallID = []\<rparr>]"
  obtain msgs2 st6 where rt: "run_tool_calls h (resp_ToolCalls resp') msgs1 st5 = (msgs2, st6)"
    by (cases "run_tool_calls h (resp_ToolCalls resp') msgs1 st5")
  define pre where "pre = ls @ [EvComplete req, EvLog LevelInfo ''llm completed'',
                   EvLog LevelDebug ''executing tool calls'']"
  have t5: "trace st5 = trace st @ pre"
    by (simp add: st5_def st3_def pre_def log_def logger_def emit_def ls)
  obtain ext2 where e2: "trace st6 = trace st5 @ ext2" "list_all quiet ext2"
    using run_tool_calls_trace [of h "resp_ToolCalls resp'" msgs1 st5] rt by auto
  have step: "tool_loop env h s tools (Suc n) msgs r st = tool_loop env h s tools n msgs2 (Some resp') st6"
    using resp' rt
    by (simp add: tool_loop_Suc [of env h s tools n msgs r st] st2_def [symmetric] req_def [symmetric]
                  st3_def [symmetric] st5_def [symmetric] msgs1_def [symmetric])
  have ans_pre: "answers env (trace st) (pre @ ext2) = [Inr resp']"
    using ls resp' e2
    by (simp add: pre_def answers_append quiet_answers)
  have cnt_pre: "length (completions (pre @ ext2)) = 1"
    using ls e2 by (simp add: pre_def quiet_completions)
  from Suc.IH [of msgs2 "Some resp'" st6] obtain r' msgs' st' ext3 where ih:
    "tool_loop env h s tools n msgs2 (Some resp') st6 = (Some r', msgs', st')"
    "trace st' = trace st6 @ ext3" "length (completions ext3) = n"
    "if n = 0 then r' = Some resp'
     else \<exists>resp. r' = Some resp \<and> answers env (trace st6) ext3 \<noteq> []
               \<and> last (answers env (trace st6) ext3) = Inr resp"
    by blast
  have tr: "trace st' = trace st @ (pre @ ext2) @ ext3"
    using ih(2) e2 t5 by simp
  have t6: "trace st6 = trace st @ (pre @ ext2)"
    using e2 t5 by simp
  have ans: "answers env (trace st) ((pre @ ext2) @ ext3) = [Inr resp'] @ answers env (trace st6) ext3"
    using answers_append [of env "trace st" "pre @ ext2" ext3] ans_pre t6 by simp
  have "\<exists>resp. r' = Some resp \<and> answers env (trace st) ((pre @ ext2) @ ext3) \<noteq> []
               \<and> last (answers env (trace st) ((pre @ ext2) @ ext3)) = Inr resp"
  proof (cases "n = 0")
    case True
    with ih(3) have "completions ext3 = []" by simp
    moreover have "length (answers env p ext3) = length (completions ext3)" for p
      by (induction env p ext3 rule: answers.induct) auto
    ultimately have "answers env (trace st6) ext3 = []" by (metis length_0_conv)
    with ih(4) True show ?thesis unfolding ans by simp
  next
    case False
    with ih(4) show ?thesis unfolding ans by auto
  qed
  moreover have "length (completions ((pre @ ext2) @ ext3)) = Suc n"
    using cnt_pre ih(3) by simp
  ultimately show ?case
    unfolding step using ih(1) tr by (intro exI [of _ r'] exI [of _ msgs'] exI [of _ st'] exI [of _ "(pre @ ext2) @ ext3"]) simp
qed

lemma resolve_route_trace:
  "\<exists>ext. trace (snd (resolve_route h content st)) = trace st @ ext \<and> list_all quiet ext"
  and resolve_route_sessions: "sessions (snd (resolve_route h content st)) = sessions st"
  by (auto simp: resolve_route_def Let_def log_def logger_def emit_def)

lemma Publish_trace: "\<exists>ext. snd (Publish env m name data tr) = tr @ ext \<and> list_all quiet ext"
  by (auto simp: Publish_def Let_def emit_def split: option.splits)

lemma publish_one_trace:
  "\<exists>ext. trace (snd (publish_one env h resp data topic st)) = trace st @ ext \<and> list_all quiet ext"
  and publish_one_sessions: "sessions (snd (publish_one env h resp data topic st)) = sessions st"
  using Publish_trace [of env _ topic "resp_Content resp" "trace st"]
  by (auto simp: publish_one_def emit_def split: option.splits prod.splits) (metis snd_conv)

lemma publish_targets_trace:
  "\<exists>ext. trace (publish_targets env h resp data topics st) = trace st @ ext \<and> list_all quiet ext"
proof (induction topics arbitrary: st)
  case Nil
  show ?case by simp
next
  case (Cons topic topics)
  obtain pubErr st1 where p1: "publish_one env h resp data topic st = (pubErr, st1)"
    by (cases "publish_one env h resp data topic st")
  obtain ext1 where e1: "trace st1 = trace st @ ext1" "list_all quiet ext1"
    using publish_one_trace [of env h resp data topic st] p1 by auto
  define st2 where "st2 = (case pubErr of Some err \<Rightarrow> log LevelError ''message send failed'' st1
                           | None \<Rightarrow> log LevelInfo ''message sent'' st1)"
  obtain l where l: "trace st2 = trace st1 @ [l]" "quiet l"
    by (cases pubErr) (auto simp: st2_def log_def logger_def emit_def)
  obtain ext2 where e2: "trace (publish_targets env h resp data topics st2) = trace st2 @ ext2"
      "list_all quiet ext2"
    using Cons.IH by blast
  have "publish_targets env h resp data (topic # topics) st = publish_targets env h resp data topics st2"
    by (simp add: p1 st2_def)
  then show ?case
    using e1 l e2 by (intro exI [of _ "ext1 @ [l] @ ext2"]) simp
qed

lemma publish_targets_sessions:
  "sessions (publish_targets env h resp data topics st) = sessions st"
proof (induction topics arbitrary: st)
  case Nil
  show ?case by simp
next
  case (Cons topic topics)
  show ?case
    using publish_one_sessions [of env h resp data topic st]
    by (auto simp: Cons.IH log_def split: prod.splits option.splits)
qed

lemma reply_trace:
  "\<exists>ext. trace (reply env msg data st) = trace st @ ext \<and> list_all quiet ext"
  and reply_sessions: "sessions (reply env msg data st) = sessions st"
  by (auto simp: reply_def log_def logger_def emit_def split: option.splits)

lemma dispatch_trace:
  "\<exists>ext. trace (dispatch env h msg resp st) = trace st @ ext \<and> list_all quiet ext"
proof -
  obtain routeTo st1 where rr: "resolve_route h (resp_Content resp) st = (routeTo, st1)"
    by (cases "resolve_route h (resp_Content resp) st")
  obtain e1 where e1: "trace st1 = trace st @ e1" "list_all quiet e1"
    using resolve_route_trace [of h "resp_Content resp" st] rr by auto
  define data where "data = json_Marshal_Response (make_response msg resp)"
  define st2 where "st2 = publish_targets env h resp data (target_topics h routeTo) st1"
  obtain e2 where e2: "trace st2 = trace st1 @ e2" "list_all quiet e2"
    using publish_targets_trace unfolding st2_def by blast
  obtain e3 where e3: "trace (reply env msg data st2) = trace st2 @ e3" "list_all quiet e3"
    using reply_trace by blast
  have "dispatch env h msg resp st = log LevelDebug ''request completed'' (reply env msg data st2)"
    by (simp add: dispatch_def rr Let_def data_def st2_def)
  then show ?thesis
    using e1 e2 e3
    by (intro exI [of _ "e1 @ e2 @ e3 @ [EvLog LevelDebug ''request completed'']"])
       (simp add: log_def logger_def emit_def)
qed

lemma dispatch_sessions: "sessions (dispatch env h msg resp st) = sessions st"
  using resolve_route_sessions [of h "resp_Content resp" st]
  by (auto simp: dispatch_def Let_def log_def reply_sessions publish_targets_sessions
           split: prod.splits)

lemma ensureSession_trace:
  "\<exists>ext. trace (snd (ensureSession env h u st)) = trace st @ ext \<and> completions ext = []"
  by (auto simp: ensureSession_def Let_def log_def logger_def emit_def split: option.splits sum.splits)

lemma prepare_trace:
  "\<exists>ext. trace (snd (snd (snd (prepare env h msg st)))) = trace st @ ext \<and> completions ext = []"
proof -
  define st1 where "st1 = log LevelInfo ''message received'' st"
  have t1: "trace st1 = trace st @ [EvLog LevelInfo ''message received'']"
    by (simp add: st1_def log_def logger_def emit_def)
  obtain u content where pm: "parseMessage (sub_Data msg) = (u, content)"
    by (cases "parseMessage (sub_Data msg)")
  define es where "es = (if mem_Enabled (agent_Memory (h_cfg h)) \<and> u \<noteq> []
                 then ensureSession env h u st1 else ([], st1))"
  have "\<exists>e2. trace (snd es) = trace st1 @ e2 \<and> completions e2 = []"
  proof (cases "mem_Enabled (agent_Memory (h_cfg h)) \<and> u \<noteq> []")
    case True
    then show ?thesis
      using ensureSession_trace [of env h u st1] by (simp add: es_def)
  next
    case False
    then show ?thesis by (auto simp: es_def)
  qed
  then obtain e2 where e2: "trace (snd es) = trace st1 @ e2" "completions e2 = []"
    by blast
  obtain ssid st2 where es: "es = (ssid, st2)"
    by (cases es)
  have p: "snd (snd (snd (prepare env h msg st))) =
             (case h_mcp h of None \<Rightarrow> st2 | Some m \<Rightarrow> log LevelDebug ''tools available'' st2)"
    using es unfolding es_def st1_def
    by (auto simp: prepare_def Let_def pm split: option.splits if_splits)
  obtain e3 where e3: "trace (snd (snd (snd (prepare env h msg st)))) = trace (snd es) @ e3"
      "completions e3 = []"
    unfolding p es by (cases "h_mcp h") (auto simp: log_def logger_def emit_def)
  show ?thesis
    using t1 e2 e3 by (intro exI [of _ "[EvLog LevelInfo ''message received''] @ e2 @ e3"]) simp
qed


section \<open>The bound on completion calls\<close>

lemma Handle_completions_le:
  "length (completions (trace (Handle env h msg st)))
     \<le> length (completions (trace st)) + maxToolIterations"
proof -
  obtain ssid msgs tools st3 where pr: "prepare env h msg st = (ssid, msgs, tools, st3)"
    by (cases "prepare env h msg st") auto
  obtain e0 where e0: "trace st3 = trace st @ e0" "completions e0 = []"
    using prepare_trace [of env h msg st] pr by auto
  obtain out msgs' st4 where tl:
    "tool_loop env h ssid tools maxToolIterations msgs None st3 = (out, msgs', st4)"
    by (cases "tool_loop env h ssid tools maxToolIterations msgs None st3") auto
  obtain ext where ext: "trace st4 = trace st3 @ ext" "length (completions ext) \<le> maxToolIterations"
    using tool_loop_trace [OF tl] by blast
  have le4: "length (completions (trace st4)) \<le> length (completions (trace st)) + maxToolIterations"
    using e0 ext by simp
  show ?thesis
  proof (cases out)
    case None
    then show ?thesis using le4 by (simp add: Handle_def pr tl)
  next
    case (Some r)
    show ?thesis
    proof (cases r)
      case None
      then show ?thesis
        using le4 Some by (simp add: Handle_def pr tl log_def logger_def emit_def)
    next
      case (Some resp)
      obtain e5 where "trace (dispatch env h msg resp st4) = trace st4 @ e5" "list_all quiet e5"
        using dispatch_trace by blast
      then show ?thesis
        using le4 Some \<open>out = Some r\<close> by (simp add: Handle_def pr tl quiet_completions)
    qed
  qed
qed

text \<open>
  Claim C1.  When every completion asks for further tool calls, \<^verbatim>\<open>Handle\<close> makes exactly
  \<open>maxToolIterations\<close> (10) completion requests and no more, and goes on to routing and
  dispatch with the response to the last of them.
\<close>

theorem Handle_stops_after_max_iterations:
  assumes always: "\<And>tr req. \<exists>resp. env_Complete env tr req = Inr resp \<and> resp_ToolCalls resp \<noteq> []"
  shows "\<exists>resp st'.
           Handle env h msg st = dispatch env h msg resp st'
           \<and> length (completions (trace st')) = length (completions (trace st)) + maxToolIterations
           \<and> last (answers env [] (trace st')) = Inr resp
           \<and> completions (trace (Handle env h msg st)) = completions (trace st')
           \<and> maxToolIterations = 10"
proof -
  obtain ssid msgs tools st3 where pr: "prepare env h msg st = (ssid, msgs, tools, st3)"
    by (cases "prepare env h msg st") auto
  obtain e0 where e0: "trace st3 = trace st @ e0" "completions e0 = []"
    using prepare_trace [of env h msg st] pr by auto
  from tool_loop_always_tools [OF always, of h ssid tools maxToolIterations msgs None st3]
  obtain r' msgs' st' ext resp where tl:
    "tool_loop env h ssid tools maxToolIterations msgs None st3 = (Some r', msgs', st')"
    "trace st' = trace st3 @ ext" "length (completions ext) = maxToolIterations"
    "r' = Some resp" "answers env (trace st3) ext \<noteq> []"
    "last (answers env (trace st3) ext) = Inr resp"
    by (auto simp: maxToolIterations_def)
  have h: "Handle env h msg st = dispatch env h msg resp st'"
    by (simp add: Handle_def pr tl)
  have "answers env [] (trace st') = answers env [] (trace st3) @ answers env (trace st3) ext"
    using answers_append [of env "[]" "trace st3" ext] tl(2) by simp
  then have la: "last (answers env [] (trace st')) = Inr resp"
    using tl(5,6) by simp
  obtain e5 where "trace (dispatch env h msg resp st') = trace st' @ e5" "list_all quiet e5"
    using dispatch_trace by blast
  then have "completions (trace (Handle env h msg st)) = completions (trace st')"
    by (simp add: h quiet_completions)
  moreover have "length (completions (trace st')) = length (completions (trace st)) + maxToolIterations"
    using tl(2,3) e0 by simp
  ultimately show ?thesis
    using h la by (auto simp: maxToolIterations_def)
qed

theorem Handle_stops_after_max_iterations_witness:
  "length (completions (trace (Handle looping_env mock_handler
       (message_on ''input'' ''loop forever'') empty_state))) = 10"
proof -
  have always: "\<And>tr req. \<exists>resp. env_Complete looping_env tr req = Inr resp \<and> resp_ToolCalls resp \<noteq> []"
    by (simp add: looping_env_def looping_response_def mock_response_def)
  from Handle_stops_after_max_iterations [OF always, of mock_handler
         "message_on ''input'' ''loop forever''" empty_state]
  show ?thesis
    by (auto simp: empty_state_def)
qed


section \<open>Failing tools\<close>


lemma tool_loop_no_abort:
  assumes llm: "\<And>tr req. \<exists>resp. env_Complete env tr req = Inr resp"
  shows "\<exists>r' msgs' st'. tool_loop env h s tools n msgs r st = (Some r', msgs', st')
           \<and> (r \<noteq> None \<or> n > 0 \<longrightarrow> r' \<noteq> None)"
proof (induction n arbitrary: msgs r st)
  case 0
  show ?case by simp
next
  case (Suc n)
  define st2 where "st2 = log LevelDebug ''llm request''
                   (if mem_Enabled (agent_Memory (h_cfg h)) \<and> s \<noteq> []
                    then log LevelInfo ''using session memory'' st else st)"
  define req where "req = make_request h s tools msgs"
  obtain resp' where resp': "env_Complete env (trace st2) req = Inr resp'"
    using llm by blast
  note step = tool_loop_Suc [of env h s tools n msgs r st, folded st2_def req_def]
  show ?case
  proof (cases "resp_ToolCalls resp' = []")
    case True
    then show ?thesis unfolding step using resp' by simp
  next
    case False
    then show ?thesis
      unfolding step using resp' Suc.IH [of _ "Some resp'"]
      by (auto split: prod.splits)
  qed
qed




lemma prepare_messages:
  "\<exists>content. fst (snd (prepare env h msg st)) = initial_messages h content"
  by (auto simp: prepare_def Let_def split: prod.splits option.splits)




section \<open>Routing\<close>







section \<open>What each destination receives\<close>












section \<open>Sessions\<close>

lemma Handle_after_prepare:
  assumes pr: "prepare env h msg st = (ssid, msgs, tools, st3)"
  shows "sessions (Handle env h msg st) = sessions st3"
    and "session_creations (trace (Handle env h msg st)) = session_creations (trace st3)"
    and "\<exists>reqs. completions (trace (Handle env h msg st)) = completions (trace st3) @ reqs
           \<and> (\<forall>req \<in> set reqs. req_SessionID req =
                 (if mem_Enabled (agent_Memory (h_cfg h)) \<and> ssid \<noteq> [] then ssid else []))"
proof -
  obtain out msgs' st4 where tl:
    "tool_loop env h ssid tools maxToolIterations msgs None st3 = (out, msgs', st4)"
    by (cases "tool_loop env h ssid tools maxToolIterations msgs None st3") auto
  obtain ext where ext: "trace st4 = trace st3 @ ext" "session_creations ext = 0"
    "sessions st4 = sessions st3"
    "\<forall>req \<in> set (completions ext). req_SessionID req =
        (if mem_Enabled (agent_Memory (h_cfg h)) \<and> ssid \<noteq> [] then ssid else [])"
    using tool_loop_trace [OF tl] by blast
  have "\<exists>e5. trace (Handle env h msg st) = trace st4 @ e5 \<and> list_all quiet e5"
    and s: "sessions (Handle env h msg st) = sessions st4"
  proof -
    show "\<exists>e5. trace (Handle env h msg st) = trace st4 @ e5 \<and> list_all quiet e5"
    proof (cases out)
      case None
      then show ?thesis by (simp add: Handle_def pr tl)
    next
      case (Some r)
      then show ?thesis
        using dispatch_trace [of env h msg _ st4]
        by (cases r) (auto simp: Handle_def pr tl log_def logger_def emit_def)
    qed
    show "sessions (Handle env h msg st) = sessions st4"
    proof (cases out)
      case None
      then show ?thesis by (simp add: Handle_def pr tl)
    next
      case (Some r)
      then show ?thesis
        by (cases r) (auto simp: Handle_def pr tl log_def dispatch_sessions)
    qed
  qed
  then obtain e5 where e5: "trace (Handle env h msg st) = trace st4 @ e5" "list_all quiet e5"
    by blast
  show "sessions (Handle env h msg st) = sessions st3"
    using s ext by simp
  show "session_creations (trace (Handle env h msg st)) = session_creations (trace st3)"
    using e5 ext by (simp add: quiet_session_creations)
  show "\<exists>reqs. completions (trace (Handle env h msg st)) = completions (trace st3) @ reqs
           \<and> (\<forall>req \<in> set reqs. req_SessionID req =
                 (if mem_Enabled (agent_Memory (h_cfg h)) \<and> ssid \<noteq> [] then ssid else []))"
    using e5 ext by (intro exI [of _ "completions ext"]) (simp add: quiet_completions)
qed

text \<open>The profile that \<^verbatim>\<open>ensureSession\<close> passes to the platform.\<close>

lemma prepare_creates:
  assumes parse: "parseMessage (sub_Data msg) = (u, c)" and u: "u \<noteq> []"
      and mem: "mem_Enabled (agent_Memory (h_cfg h))"
      and first: "sessions st u = None"
      and created: "env_CreateSession env
             (trace st @ [EvLog LevelInfo ''message received'', EvLog LevelInfo ''creating session''])
             \<lparr>sp_Type = profile_Type (GetProfile (agent_Memory (h_cfg h))),
              sp_MaxTokens = profile_MaxTokens (GetProfile (agent_Memory (h_cfg h))),
              sp_SummarizationThreshold =
                profile_SummarizationThreshold (GetProfile (agent_Memory (h_cfg h)))\<rparr>
             (agent_Instructions (h_cfg h)) = Inr sid"
  shows "\<exists>msgs tools st3. prepare env h msg st = (sid, msgs, tools, st3)
           \<and> sessions st3 = (sessions st)(u \<mapsto> sid)
           \<and> session_creations (trace st3) = session_creations (trace st) + 1
           \<and> completions (trace st3) = completions (trace st)"
proof -
  define st2 where "st2 = log LevelInfo ''session created''
        ((log LevelInfo ''message received'' st)\<lparr>trace := trace st @ [EvLog LevelInfo ''message received'',
                 EvLog LevelInfo ''creating session'',
                 EvCreateSession \<lparr>sp_Type = profile_Type (GetProfile (agent_Memory (h_cfg h))),
                    sp_MaxTokens = profile_MaxTokens (GetProfile (agent_Memory (h_cfg h))),
                    sp_SummarizationThreshold =
                      profile_SummarizationThreshold (GetProfile (agent_Memory (h_cfg h)))\<rparr>
                   (agent_Instructions (h_cfg h))],
              sessions := (sessions st)(u \<mapsto> sid)\<rparr>)"
  have es: "ensureSession env h u (log LevelInfo ''message received'' st) = (sid, st2)"
    using first created
    by (simp add: ensureSession_def st2_def Let_def log_def logger_def emit_def)
  have s2: "sessions st2 = (sessions st)(u \<mapsto> sid)"
       "session_creations (trace st2) = session_creations (trace st) + 1"
       "completions (trace st2) = completions (trace st)"
    by (simp_all add: st2_def log_def logger_def emit_def)
  have p: "prepare env h msg st =
             (sid, initial_messages h c,
              (case h_mcp h of None \<Rightarrow> [] | Some m \<Rightarrow> GetAthyrTools m),
              (case h_mcp h of None \<Rightarrow> st2 | Some m \<Rightarrow> log LevelDebug ''tools available'' st2))"
    using parse u mem by (cases "h_mcp h") (simp_all add: prepare_def Let_def es)
  show ?thesis
    unfolding p using s2 by (cases "h_mcp h") (simp_all add: log_def logger_def emit_def)
qed

lemma prepare_reuses:
  assumes parse: "parseMessage (sub_Data msg) = (u, c)" and u: "u \<noteq> []"
      and mem: "mem_Enabled (agent_Memory (h_cfg h))"
      and known: "sessions st u = Some sid"
  shows "\<exists>msgs tools st3. prepare env h msg st = (sid, msgs, tools, st3)
           \<and> sessions st3 = sessions st
           \<and> session_creations (trace st3) = session_creations (trace st)
           \<and> completions (trace st3) = completions (trace st)"
  using parse u mem known
  by (cases "h_mcp h")
     (simp_all add: prepare_def Let_def ensureSession_def log_def logger_def emit_def)


lemma prepare_without_session:
  assumes parse: "fst (parseMessage (sub_Data msg)) = []"
  shows "sessions (snd (snd (snd (prepare env h msg st)))) = sessions st"
    and "session_creations (trace (snd (snd (snd (prepare env h msg st)))))
           = session_creations (trace st)"
  using parse
  by (cases "h_mcp h"; cases "parseMessage (sub_Data msg)";
      simp add: prepare_def Let_def log_def logger_def emit_def)+

lemma Handle_without_session:
  assumes parse: "fst (parseMessage (sub_Data msg)) = []"
  shows "sessions (Handle env h msg st) = sessions st"
    and "session_creations (trace (Handle env h msg st)) = session_creations (trace st)"
proof -
  obtain ssid msgs tools st3 where pr: "prepare env h msg st = (ssid, msgs, tools, st3)"
    by (cases "prepare env h msg st") auto
  show "sessions (Handle env h msg st) = sessions st"
    using Handle_after_prepare(1) [OF pr] prepare_without_session(1) [OF parse, of env h st] pr
    by simp
  show "session_creations (trace (Handle env h msg st)) = session_creations (trace st)"
    using Handle_after_prepare(2) [OF pr] prepare_without_session(2) [OF parse, of env h st] pr
    by simp
qed

theorem session_key_counterexample:
  \<open>parseMessage ''{"session":"u1","content":"hi"}'' = ([], ''hi'')
   \<and> sessions (Handle mock_env mock_handler
         (message_on ''input'' ''{"session":"u1","content":"hi"}'') empty_state) ''u1'' = None
   \<and> session_creations (trace (Handle mock_env mock_handler
         (message_on ''input'' ''{"session":"u1","content":"hi"}'') empty_state)) = 0
   \<and> mem_Enabled (agent_Memory (h_cfg mock_handler))\<close>
proof -
  have p: \<open>parseMessage ''{"session":"u1","content":"hi"}'' = ([], ''hi'')\<close>
    by code_simp
  then have f: \<open>fst (parseMessage (sub_Data (message_on ''input'' ''{"session":"u1","content":"hi"}''))) = []\<close>
    by (simp add: message_on_def)
  show ?thesis
    using p Handle_without_session [OF f, of mock_env mock_handler empty_state]
    by (simp add: empty_state_def mock_handler_def mock_cfg_def mock_memory_def)
qed

text \<open>
  Claim C3, amended.  With memory enabled, the inbound payload
  \<^verbatim>\<open>{"session_id":"u1","content":"hi"}\<close> (the key is \<^verbatim>\<open>session_id\<close>) creates exactly one session
  mapping for the key \<^verbatim>\<open>u1\<close> the first time it is seen, provided the platform creates the
  session; a second message with the same session key reuses the stored platform session
  identifier, which every one of its completion requests carries, and creates no session.
\<close>

theorem session_created_once_and_reused:
  assumes mem: "mem_Enabled (agent_Memory (h_cfg h))"
      and first: "sessions st ''u1'' = None"
      and created: "env_CreateSession env
             (trace st @ [EvLog LevelInfo ''message received'', EvLog LevelInfo ''creating session''])
             \<lparr>sp_Type = profile_Type (GetProfile (agent_Memory (h_cfg h))),
              sp_MaxTokens = profile_MaxTokens (GetProfile (agent_Memory (h_cfg h))),
              sp_SummarizationThreshold =
                profile_SummarizationThreshold (GetProfile (agent_Memory (h_cfg h)))\<rparr>
             (agent_Instructions (h_cfg h)) = Inr sid"
      and msg1: \<open>sub_Data msg1 = ''{"session_id":"u1","content":"hi"}''\<close>
      and msg2: "fst (parseMessage (sub_Data msg2)) = ''u1''"
  shows "sessions (Handle env h msg1 st) = (sessions st)(''u1'' \<mapsto> sid)
         \<and> session_creations (trace (Handle env h msg1 st)) = session_creations (trace st) + 1
         \<and> sessions (Handle env h msg2 (Handle env h msg1 st)) = sessions (Handle env h msg1 st)
         \<and> session_creations (trace (Handle env h msg2 (Handle env h msg1 st)))
             = session_creations (trace (Handle env h msg1 st))
         \<and> (\<exists>reqs. completions (trace (Handle env h msg2 (Handle env h msg1 st)))
                     = completions (trace (Handle env h msg1 st)) @ reqs
                   \<and> (\<forall>req \<in> set reqs. req_SessionID req = sid))"
proof -
  have p1: \<open>parseMessage (sub_Data msg1) = (''u1'', ''hi'')\<close>
    unfolding msg1 by code_simp
  obtain msgs tools st3 where pr1: "prepare env h msg1 st = (sid, msgs, tools, st3)"
      "sessions st3 = (sessions st)(''u1'' \<mapsto> sid)"
      "session_creations (trace st3) = session_creations (trace st) + 1"
    using prepare_creates [OF p1 _ mem first created] by auto
  define st1 where "st1 = Handle env h msg1 st"
  have a: "sessions st1 = (sessions st)(''u1'' \<mapsto> sid)"
    and b: "session_creations (trace st1) = session_creations (trace st) + 1"
    using Handle_after_prepare(1,2) [OF pr1(1)] pr1(2,3) by (simp_all add: st1_def)
  obtain c2 where p2: "parseMessage (sub_Data msg2) = (''u1'', c2)"
    using msg2 by (cases "parseMessage (sub_Data msg2)") auto
  have known: "sessions st1 ''u1'' = Some sid"
    by (simp add: a)
  obtain msgs' tools' st3' where pr2: "prepare env h msg2 st1 = (sid, msgs', tools', st3')"
      "sessions st3' = sessions st1"
      "session_creations (trace st3') = session_creations (trace st1)"
      "completions (trace st3') = completions (trace st1)"
    using prepare_reuses [OF p2 _ mem known, where env = env] by auto
  have c: "sessions (Handle env h msg2 st1) = sessions st1"
    and d: "session_creations (trace (Handle env h msg2 st1)) = session_creations (trace st1)"
    using Handle_after_prepare(1,2) [OF pr2(1)] pr2(2,3) by simp_all
  obtain reqs where reqs: "completions (trace (Handle env h msg2 st1)) = completions (trace st3') @ reqs"
      "\<forall>req \<in> set reqs. req_SessionID req =
          (if mem_Enabled (agent_Memory (h_cfg h)) \<and> sid \<noteq> [] then sid else [])"
    using Handle_after_prepare(3) [OF pr2(1)] by blast
  have e: "\<exists>reqs. completions (trace (Handle env h msg2 st1)) = completions (trace st1) @ reqs
                   \<and> (\<forall>req \<in> set reqs. req_SessionID req = sid)"
    using reqs pr2(4) mem by (intro exI [of _ reqs]) auto
  show ?thesis
    using a b c d e unfolding st1_def by simp
qed

theorem session_created_once_and_reused_witness:
  \<open>sessions (Handle mock_env mock_handler
       (message_on ''input'' ''{"session_id":"u1","content":"hi"}'') empty_state) ''u1''
     = Some ''server-sess-rolling_window''
   \<and> session_creations (trace (Handle mock_env mock_handler
        (message_on ''input'' ''{"session_id":"u1","content":"hi"}'')
        (Handle mock_env mock_handler
           (message_on ''input'' ''{"session_id":"u1","content":"hi"}'') empty_state))) = 1\<close>
proof -
  have mem: "mem_Enabled (agent_Memory (h_cfg mock_handler))"
    by (simp add: mock_handler_def mock_cfg_def mock_memory_def)
  have first: "sessions empty_state ''u1'' = None"
    by (simp add: empty_state_def)
  have created: "env_CreateSession mock_env
             (trace empty_state @ [EvLog LevelInfo ''message received'', EvLog LevelInfo ''creating session''])
             \<lparr>sp_Type = profile_Type (GetProfile (agent_Memory (h_cfg mock_handler))),
              sp_MaxTokens = profile_MaxTokens (GetProfile (agent_Memory (h_cfg mock_handler))),
              sp_SummarizationThreshold =
                profile_SummarizationThreshold (GetProfile (agent_Memory (h_cfg mock_handler)))\<rparr>
             (agent_Instructions (h_cfg mock_handler)) = Inr ''server-sess-rolling_window''"
    by (simp add: mock_env_def mock_handler_def mock_cfg_def mock_memory_def GetProfile_def Let_def)
  have msg1: \<open>sub_Data (message_on ''input'' ''{"session_id":"u1","content":"hi"}'')
                = ''{"session_id":"u1","content":"hi"}''\<close>
    by (simp add: message_on_def)
  have msg2: \<open>fst (parseMessage (sub_Data (message_on ''input'' ''{"session_id":"u1","content":"hi"}'')))
                = ''u1''\<close>
    unfolding msg1 by code_simp
  from session_created_once_and_reused [OF mem first created msg1 msg2]
  show ?thesis
    by (simp add: empty_state_def)
qed


section \<open>The structured-data codec of the sandbox\<close>



lemma fmpred_fmmap_iff: "fmpred (\<lambda>k b. b) (fmmap P m) = (\<forall>x \<in> fmran' m. P x)"
  by (auto simp: fmpred_iff fmran'_def dest: fmran'I)








end
